theory Spec2Isabelle
  imports Complex_Main
begin

section \<open>Hydrostatic column integration of an input sounding\<close>

text \<open>
  This theory embeds the two column integrators of \<^verbatim>\<open>erftools/input_sounding.py\<close>,
  \<^verbatim>\<open>InputSounding.integrate_column_wrf\<close> and \<^verbatim>\<open>InputSounding.integrate_column\<close>, as functions
  from the object \<^verbatim>\<open>self\<close> to either the exception raised, with the arrays the object holds
  at that moment, or the object with its four new arrays.

  Floats are idealised as real numbers: \<open>+\<close>, \<open>-\<close>, \<open>*\<close>, \<open>/\<close> are exact and \<^verbatim>\<open>x ** y\<close> is
  \<open>x powr y\<close>. Where the arithmetic of the program leaves the reals (numpy gives \<^verbatim>\<open>inf\<close> for a
  division by zero and \<^verbatim>\<open>nan\<close> for a negative base under a fractional exponent; Python's own
  floats raise or turn complex when \<^verbatim>\<open>p_surf/p0\<close> is not positive) the model has the total
  value HOL gives to \<open>/\<close> and \<open>powr\<close>, and no theorem below depends on what that value is.
  The assertion \<^verbatim>\<open>pm[k] > 0\<close> fails on \<^verbatim>\<open>nan\<close> as it does on a number that is not positive;
  assertions are taken as enabled (the interpreter is not run with \<^verbatim>\<open>-O\<close>).
  The \<^verbatim>\<open>verbose\<close> argument only prints and is left out.
\<close>

subsection \<open>Data\<close>

text \<open>
  The names imported from \<^verbatim>\<open>erftools/constants.py\<close>, which is not among the sources:
  they are parameters of every definition.
\<close>

record constants =
  R_d :: real
  c_p :: real
  g :: real
  p0 :: real
  rvovrd :: real
  cvpm :: real

text \<open>
  One row of the array \<^verbatim>\<open>init\<close> read by \<^verbatim>\<open>__init__\<close>. The attributes \<^verbatim>\<open>self.z\<close>,
  \<^verbatim>\<open>self.th\<close>, \<^verbatim>\<open>self.qv\<close>, \<^verbatim>\<open>self.u\<close>, \<^verbatim>\<open>self.v\<close> are the columns of that one array, so
  \<^verbatim>\<open>self.z[k]\<close> is \<open>z (levels s ! k)\<close> and all columns have the length \<^verbatim>\<open>len(self.th)\<close>.
\<close>

record level =
  z :: real
  th :: real
  qv :: real
  u :: real
  v :: real

text \<open>The arrays \<^verbatim>\<open>self.rho\<close>, \<^verbatim>\<open>self.thm\<close> (the field \<open>thm'\<close>), \<^verbatim>\<open>self.pm\<close>, \<^verbatim>\<open>self.p\<close>.\<close>

record profile =
  rho :: "real list"
  thm' :: "real list"
  pm :: "real list"
  p :: "real list"

text \<open>
  The object \<^verbatim>\<open>self\<close>. \<open>derived\<close> is \<open>None\<close> as long as no integration has assigned the
  four arrays.
\<close>

record sounding =
  p_surf :: real
  th_surf :: real
  qv_surf :: real
  levels :: "level list"
  derived :: "profile option"

datatype error = IndexError | AssertionError string

text \<open>
  What is known when an exception leaves the routine: the exception \<open>exc\<close>, the level
  index \<open>at_level\<close> the routine was working on (the index read for \<open>IndexError\<close>, the loop
  variable \<^verbatim>\<open>k\<close> for the assertion; a local of the frame, not part of the exception
  object), and the four arrays \<open>obj\<close> as the object holds them at that moment.
\<close>

record failure =
  exc :: error
  at_level :: nat
  obj :: "profile option"

subsection \<open>The loops\<close>

text \<open>
  Lines 64-66 and 127-129: \<^verbatim>\<open>for i in range(Niter)\<close> of stage 1. The two routines have the
  same loop text; \<open>qvf\<close>, \<open>qvf1\<close>, \<open>dz\<close> and \<open>rho_surf\<close> are the locals it reads.
\<close>

fun surface_loop ::
  "constants \<Rightarrow> sounding \<Rightarrow> real \<Rightarrow> real \<Rightarrow> real \<Rightarrow> real \<Rightarrow> nat \<Rightarrow> profile \<Rightarrow> profile" where
  "surface_loop c s rho_surf qvf qvf1 dz 0 pr = pr"
| "surface_loop c s rho_surf qvf qvf1 dz (Suc i) pr =
    (let pr1 = pr\<lparr>pm := (pm pr)[0 := p_surf s - 0.5 * dz * (rho_surf + rho pr ! 0) * g c * qvf1]\<rparr>;
         pr2 = pr1\<lparr>rho := (rho pr1)[0 :=
                 1 / ((R_d c / p0 c) * th (levels s ! 0) * qvf * ((pm pr1 ! 0 / p0 c) powr cvpm c))]\<rparr>
     in surface_loop c s rho_surf qvf qvf1 dz i pr2)"

text \<open>
  Lines 75-79 and 140-144: the inner loop of stage 2 at level \<open>k\<close>, with its assertion.
\<close>

fun level_loop ::
  "constants \<Rightarrow> sounding \<Rightarrow> nat \<Rightarrow> real \<Rightarrow> real \<Rightarrow> real \<Rightarrow> nat \<Rightarrow> profile \<Rightarrow> failure + profile" where
  "level_loop c s k qvf qvf1 dz 0 pr = Inr pr"
| "level_loop c s k qvf qvf1 dz (Suc i) pr =
    (let pr1 = pr\<lparr>pm := (pm pr)[k :=
                 pm pr ! (k - 1) - 0.5 * dz * (rho pr ! k + rho pr ! (k - 1)) * g c * qvf1]\<rparr>
     in if \<not> pm pr1 ! k > 0
        then Inl \<lparr>exc = AssertionError ''too cold for chosen height'', at_level = k, obj = Some pr1\<rparr>
        else level_loop c s k qvf qvf1 dz i
               (pr1\<lparr>rho := (rho pr1)[k :=
                 1 / ((R_d c / p0 c) * th (levels s ! k) * qvf * ((pm pr1 ! k / p0 c) powr cvpm c))]\<rparr>))"

text \<open>
  Lines 70-80 and 135-145: \<^verbatim>\<open>for k in range(1,N)\<close>, run over the list of indices. The one
  line on which the two routines differ, the assignment of \<open>qvf\<close>, is the argument
  \<open>qvf_of\<close>, applied to \<^verbatim>\<open>self.qv[k]\<close>.
\<close>

fun column_loop ::
  "(real \<Rightarrow> real) \<Rightarrow> constants \<Rightarrow> sounding \<Rightarrow> nat \<Rightarrow> nat list \<Rightarrow> profile \<Rightarrow> failure + profile" where
  "column_loop qvf_of c s n [] pr = Inr pr"
| "column_loop qvf_of c s n (k # ks) pr =
    (let pr1 = pr\<lparr>rho := (rho pr)[k := rho pr ! (k - 1)]\<rparr>;
         dz = z (levels s ! k) - z (levels s ! (k - 1));
         qvf1 = 0.5 * (2 + (qv (levels s ! (k - 1)) + qv (levels s ! k)));
         qvf = qvf_of (qv (levels s ! k))
     in case level_loop c s k qvf qvf1 dz n pr1 of
          Inl f \<Rightarrow> Inl f
        | Inr pr2 \<Rightarrow>
            column_loop qvf_of c s n ks (pr2\<lparr>thm' := (thm' pr2)[k := th (levels s ! k) * qvf]\<rparr>))"

text \<open>Lines 86-88 and 153-155: \<^verbatim>\<open>for k in range(N-2,-1,-1)\<close>.\<close>

fun dry_loop :: "constants \<Rightarrow> sounding \<Rightarrow> nat list \<Rightarrow> profile \<Rightarrow> profile" where
  "dry_loop c s [] pr = pr"
| "dry_loop c s (k # ks) pr =
    (let dz = z (levels s ! (k + 1)) - z (levels s ! k)
     in dry_loop c s ks
          (pr\<lparr>p := (p pr)[k := p pr ! (k + 1) + 0.5 * dz * (rho pr ! k + rho pr ! (k + 1)) * g c]\<rparr>))"

subsection \<open>The two routines\<close>

text \<open>The assignments of \<open>qvf\<close> at a level: lines 60 and 74, and lines 123 and 139.\<close>

definition qvf_wrf :: "constants \<Rightarrow> real \<Rightarrow> real" where
  "qvf_wrf c q = 1 + rvovrd c * q"

definition qvf_vpt :: "constants \<Rightarrow> real \<Rightarrow> real" where
  "qvf_vpt c q = 1 + (rvovrd c - 1) * q"

text \<open>
  \<^verbatim>\<open>integrate_column_wrf\<close>, lines 34-92. Its first statement reads \<^verbatim>\<open>self.qv[0]\<close>, which
  raises \<open>IndexError\<close> on an empty table, before the arrays are assigned.
  \<^verbatim>\<open>range(Niter)\<close> has \<open>nat Niter\<close> elements.
\<close>

definition integrate_column_wrf :: "constants \<Rightarrow> sounding \<Rightarrow> int \<Rightarrow> failure + sounding" where
  "integrate_column_wrf c s Niter =
    (if levels s = [] then Inl \<lparr>exc = IndexError, at_level = 0, obj = derived s\<rparr>
     else
       let qvf = 1 + rvovrd c * qv (levels s ! 0);
           rho_surf = 1 / ((R_d c / p0 c) * th_surf s * qvf * ((p_surf s / p0 c) powr cvpm c));
           N = length (levels s);
           pr = \<lparr>rho = replicate N 0, thm' = replicate N 0, pm = replicate N 0, p = replicate N 0\<rparr>;
           qvf = 1 + rvovrd c * qv (levels s ! 0);
           qvf1 = 1 + qv (levels s ! 0);
           pr = pr\<lparr>rho := (rho pr)[0 := rho_surf]\<rparr>;
           dz = z (levels s ! 0);
           pr = surface_loop c s rho_surf qvf qvf1 dz (nat Niter) pr;
           pr = pr\<lparr>thm' := (thm' pr)[0 := th (levels s ! 0) * qvf]\<rparr>
       in case column_loop (qvf_wrf c) c s (nat Niter) [1..<N] pr of
            Inl f \<Rightarrow> Inl f
          | Inr pr \<Rightarrow>
              let pr = pr\<lparr>p := (p pr)[N - 1 := pm pr ! (N - 1)]\<rparr>
              in Inr (s\<lparr>derived := Some (dry_loop c s (rev [0..<N - 1]) pr)\<rparr>))"

text \<open>
  \<^verbatim>\<open>integrate_column\<close>, lines 95-159. Here \<open>rho_surf\<close> is computed with a \<open>qvf\<close> taken
  from \<^verbatim>\<open>self.qv_surf\<close> (line 108; the line reading \<^verbatim>\<open>self.qv[0]\<close> is commented out), and
  the first read of \<^verbatim>\<open>self.qv[0]\<close> is on line 123, after the arrays are assigned.
\<close>

definition integrate_column :: "constants \<Rightarrow> sounding \<Rightarrow> int \<Rightarrow> failure + sounding" where
  "integrate_column c s Niter =
    (let qvf = 1 + (rvovrd c - 1) * qv_surf s;
         rho_surf = 1 / ((R_d c / p0 c) * th_surf s * qvf * ((p_surf s / p0 c) powr cvpm c));
         N = length (levels s);
         pr = \<lparr>rho = replicate N 0, thm' = replicate N 0, pm = replicate N 0, p = replicate N 0\<rparr>
     in if levels s = [] then Inl \<lparr>exc = IndexError, at_level = 0, obj = Some pr\<rparr>
        else
          let qvf = 1 + (rvovrd c - 1) * qv (levels s ! 0);
              qvf1 = 1 + qv (levels s ! 0);
              pr = pr\<lparr>rho := (rho pr)[0 := rho_surf]\<rparr>;
              dz = z (levels s ! 0);
              pr = surface_loop c s rho_surf qvf qvf1 dz (nat Niter) pr;
              pr = pr\<lparr>thm' := (thm' pr)[0 := th (levels s ! 0) * qvf]\<rparr>
          in case column_loop (qvf_vpt c) c s (nat Niter) [1..<N] pr of
               Inl f \<Rightarrow> Inl f
             | Inr pr \<Rightarrow>
                 let pr = pr\<lparr>p := (p pr)[N - 1 := pm pr ! (N - 1)]\<rparr>
                 in Inr (s\<lparr>derived := Some (dry_loop c s (rev [0..<N - 1]) pr)\<rparr>))"

text \<open>
  The two formulations of the specification name the two routines:
  \<open>LEGACY\<close> is \<^verbatim>\<open>integrate_column_wrf\<close>, \<open>VIRTUAL_POTENTIAL_TEMPERATURE\<close> is
  \<^verbatim>\<open>integrate_column\<close>.
\<close>

datatype formulation = LEGACY | VIRTUAL_POTENTIAL_TEMPERATURE

fun integrate :: "constants \<Rightarrow> sounding \<Rightarrow> formulation \<Rightarrow> int \<Rightarrow> failure + sounding" where
  "integrate c s LEGACY Niter = integrate_column_wrf c s Niter"
| "integrate c s VIRTUAL_POTENTIAL_TEMPERATURE Niter = integrate_column c s Niter"

subsection \<open>What a caller observes\<close>

text \<open>
  What a caller observes after a call: the exception raised, if any, and the four arrays the
  object holds.
\<close>

definition outcome :: "failure + sounding \<Rightarrow> error option \<times> profile option" where
  "outcome r = (case r of Inl f \<Rightarrow> (Some (exc f), obj f) | Inr s' \<Rightarrow> (None, derived s'))"

subsection \<open>The relaxation without the assertion\<close>

text \<open>
  The equation of state as the specification writes it,
  \<open>rho = 1 / ((R_d/p0) * th * qvf * (P/p0)^cvpm)\<close>; the source has the same expression inline on
  lines 46, 66, 79 and 109, 129, 144.
\<close>

definition eos :: "constants \<Rightarrow> real \<Rightarrow> real \<Rightarrow> real \<Rightarrow> real" where
  "eos c thv qvf P = 1 / ((R_d c / p0 c) * thv * qvf * ((P / p0 c) powr cvpm c))"

text \<open>
  One repetition of the relaxation in the words of the specification, on the pair
  (pressure, density) of the level being computed: the pressure from the pressure and density
  of the level below (or of the surface) and the current density, then the density from the
  equation of state. It has no assertion.
\<close>

definition relax_step ::
  "constants \<Rightarrow> real \<Rightarrow> real \<Rightarrow> real \<Rightarrow> real \<Rightarrow> real \<Rightarrow> real \<Rightarrow> real \<times> real \<Rightarrow> real \<times> real" where
  "relax_step c thv qvf qvf1 dz P_below rho_below X =
     (let P' = P_below - 0.5 * dz * (snd X + rho_below) * g c * qvf1 in (P', eos c thv qvf P'))"

text \<open>The moisture factor \<open>qvf\<close> of each formulation.\<close>

definition qvf_for :: "constants \<Rightarrow> formulation \<Rightarrow> real \<Rightarrow> real" where
  "qvf_for c fm = (case fm of LEGACY \<Rightarrow> qvf_wrf c | VIRTUAL_POTENTIAL_TEMPERATURE \<Rightarrow> qvf_vpt c)"

text \<open>
  The local \<open>rho_surf\<close> of each routine: lines 45-46 take the moisture of \<^verbatim>\<open>self.qv[0]\<close>, lines
  108-109 that of \<^verbatim>\<open>self.qv_surf\<close>.
\<close>

definition rho_surf_of :: "constants \<Rightarrow> sounding \<Rightarrow> formulation \<Rightarrow> real" where
  "rho_surf_of c s fm =
     eos c (th_surf s)
       (case fm of LEGACY \<Rightarrow> qvf_wrf c (qv (levels s ! 0))
        | VIRTUAL_POTENTIAL_TEMPERATURE \<Rightarrow> qvf_vpt c (qv_surf s))
       (p_surf s)"

text \<open>The locals \<open>qvf1\<close> and \<open>dz\<close> of the loop over the levels, lines 72-73 and 137-138.\<close>

definition qvf1_at :: "sounding \<Rightarrow> nat \<Rightarrow> real" where
  "qvf1_at s k = 0.5 * (2 + (qv (levels s ! (k - 1)) + qv (levels s ! k)))"

definition dz_at :: "sounding \<Rightarrow> nat \<Rightarrow> real" where
  "dz_at s k = z (levels s ! k) - z (levels s ! (k - 1))"

text \<open>
  The step of stage 1 (from the surface pressure and \<open>rho_surf\<close>, with \<open>qvf1 = 1 + qv[0]\<close> and
  \<open>dz = z[0]\<close>) and the step of stage 2 at level \<open>k\<close>.
\<close>

definition surface_step ::
  "(real \<Rightarrow> real) \<Rightarrow> constants \<Rightarrow> sounding \<Rightarrow> real \<Rightarrow> real \<times> real \<Rightarrow> real \<times> real" where
  "surface_step qvf_of c s rho_surf =
     relax_step c (th (levels s ! 0)) (qvf_of (qv (levels s ! 0))) (1 + qv (levels s ! 0))
       (z (levels s ! 0)) (p_surf s) rho_surf"

definition level_step ::
  "(real \<Rightarrow> real) \<Rightarrow> constants \<Rightarrow> sounding \<Rightarrow> nat \<Rightarrow> real \<Rightarrow> real \<Rightarrow> real \<times> real \<Rightarrow> real \<times> real" where
  "level_step qvf_of c s k P_below rho_below =
     relax_step c (th (levels s ! k)) (qvf_of (qv (levels s ! k))) (qvf1_at s k) (dz_at s k)
       P_below rho_below"

text \<open>
  The relaxation run without the assertion. \<open>ref_level \<dots> n k\<close> is the pair
  (\<open>pm[k]\<close>, \<open>rho[k]\<close>) after all \<open>n\<close> repetitions at level \<open>k\<close>: stage 1 starts from
  \<open>pm[0] = 0\<close>, \<open>rho[0] = rho_surf\<close>, and level \<open>k+1\<close> starts from \<open>pm[k+1] = 0\<close> (the array of
  zeros) and \<open>rho[k+1] = rho[k]\<close>. \<open>ref_iter \<dots> n k i\<close> is the pair at level \<open>k \<ge> 1\<close> after \<open>i\<close>
  repetitions.
\<close>

fun ref_level ::
  "(real \<Rightarrow> real) \<Rightarrow> constants \<Rightarrow> sounding \<Rightarrow> real \<Rightarrow> nat \<Rightarrow> nat \<Rightarrow> real \<times> real" where
  "ref_level qvf_of c s rho_surf n 0 = (surface_step qvf_of c s rho_surf ^^ n) (0, rho_surf)"
| "ref_level qvf_of c s rho_surf n (Suc k) =
     (level_step qvf_of c s (Suc k) (fst (ref_level qvf_of c s rho_surf n k))
        (snd (ref_level qvf_of c s rho_surf n k)) ^^ n)
       (0, snd (ref_level qvf_of c s rho_surf n k))"

definition ref_iter ::
  "(real \<Rightarrow> real) \<Rightarrow> constants \<Rightarrow> sounding \<Rightarrow> real \<Rightarrow> nat \<Rightarrow> nat \<Rightarrow> nat \<Rightarrow> real \<times> real" where
  "ref_iter qvf_of c s rho_surf n k i =
     (level_step qvf_of c s k (fst (ref_level qvf_of c s rho_surf n (k - 1)))
        (snd (ref_level qvf_of c s rho_surf n (k - 1))) ^^ i)
       (0, snd (ref_level qvf_of c s rho_surf n (k - 1)))"

text \<open>
  Every pressure that the repetitions of stage 2 produce at the levels \<open>1 \<le> k < m\<close> is
  positive: these are the values the assertion looks at.
\<close>

definition positive_below ::
  "(real \<Rightarrow> real) \<Rightarrow> constants \<Rightarrow> sounding \<Rightarrow> real \<Rightarrow> nat \<Rightarrow> nat \<Rightarrow> bool" where
  "positive_below qvf_of c s rho_surf n m =
     (\<forall>k. 1 \<le> k \<and> k < m \<longrightarrow> (\<forall>i<n. 0 < fst (ref_iter qvf_of c s rho_surf n k (Suc i))))"

subsection \<open>The arrays during a run\<close>

text \<open>
  The four arrays when the levels below \<open>m\<close> are finished and nothing else is written, and
  the arrays at the moment the assertion fails at level \<open>k\<close> in repetition \<open>i\<close>.
\<close>

definition ref_profile ::
  "(real \<Rightarrow> real) \<Rightarrow> constants \<Rightarrow> sounding \<Rightarrow> real \<Rightarrow> nat \<Rightarrow> nat \<Rightarrow> profile" where
  "ref_profile qvf_of c s rho_surf n m =
     \<lparr>rho = map (\<lambda>j. if j < m then snd (ref_level qvf_of c s rho_surf n j) else 0) [0..<length (levels s)],
      thm' = map (\<lambda>j. if j < m then th (levels s ! j) * qvf_of (qv (levels s ! j)) else 0) [0..<length (levels s)],
      pm = map (\<lambda>j. if j < m then fst (ref_level qvf_of c s rho_surf n j) else 0) [0..<length (levels s)],
      p = replicate (length (levels s)) 0\<rparr>"

definition fail_profile ::
  "(real \<Rightarrow> real) \<Rightarrow> constants \<Rightarrow> sounding \<Rightarrow> real \<Rightarrow> nat \<Rightarrow> nat \<Rightarrow> nat \<Rightarrow> profile" where
  "fail_profile qvf_of c s rho_surf n k i =
     (let pr = ref_profile qvf_of c s rho_surf n k
      in pr\<lparr>rho := (rho pr)[k := snd (ref_iter qvf_of c s rho_surf n k i)],
            pm := (pm pr)[k := fst (ref_iter qvf_of c s rho_surf n k (Suc i))]\<rparr>)"

text \<open>The failure of the assertion on lines 78 and 143.\<close>

definition too_cold :: "nat \<Rightarrow> profile \<Rightarrow> failure" where
  "too_cold k pr = \<lparr>exc = AssertionError ''too cold for chosen height'', at_level = k, obj = Some pr\<rparr>"

text \<open>One pass through the body of each loop.\<close>

definition surface_body ::
  "constants \<Rightarrow> sounding \<Rightarrow> real \<Rightarrow> real \<Rightarrow> real \<Rightarrow> real \<Rightarrow> profile \<Rightarrow> profile" where
  "surface_body c s rs qvf qvf1 dz pr =
     surface_loop c s rs qvf qvf1 dz (Suc 0) pr"

definition level_body ::
  "constants \<Rightarrow> sounding \<Rightarrow> nat \<Rightarrow> real \<Rightarrow> real \<Rightarrow> real \<Rightarrow> profile \<Rightarrow> failure + profile" where
  "level_body c s k qvf qvf1 dz pr = level_loop c s k qvf qvf1 dz (Suc 0) pr"

definition column_body ::
  "(real \<Rightarrow> real) \<Rightarrow> constants \<Rightarrow> sounding \<Rightarrow> nat \<Rightarrow> nat \<Rightarrow> profile \<Rightarrow> failure + profile" where
  "column_body qvf_of c s n k pr = column_loop qvf_of c s n [k] pr"

text \<open>
  Lines 53-67 and 116-130 (the arrays of zeros and stage 1), and lines 85-88 and 152-155
  (stage 3), as functions of the locals they read.
\<close>

definition stage1 ::
  "(real \<Rightarrow> real) \<Rightarrow> constants \<Rightarrow> sounding \<Rightarrow> real \<Rightarrow> nat \<Rightarrow> profile" where
  "stage1 qf c s rs n =
     (let N = length (levels s);
          pr = \<lparr>rho = replicate N 0, thm' = replicate N 0, pm = replicate N 0, p = replicate N 0\<rparr>;
          qvf = qf (qv (levels s ! 0));
          qvf1 = 1 + qv (levels s ! 0);
          pr = pr\<lparr>rho := (rho pr)[0 := rs]\<rparr>;
          dz = z (levels s ! 0);
          pr = surface_loop c s rs qvf qvf1 dz n pr;
          pr = pr\<lparr>thm' := (thm' pr)[0 := th (levels s ! 0) * qvf]\<rparr>
      in pr)"

definition stage3 :: "constants \<Rightarrow> sounding \<Rightarrow> profile \<Rightarrow> profile" where
  "stage3 c s pr =
     dry_loop c s (rev [0..<length (levels s) - 1])
       (pr\<lparr>p := (p pr)[length (levels s) - 1 := pm pr ! (length (levels s) - 1)]\<rparr>)"

subsection \<open>Soundings to evaluate on\<close>

text \<open>
  Values of the constants as in WRF (\<open>c_p = 7/2 R_d\<close>, so \<open>cvpm = -5/7\<close>), and the first two
  levels of a moist sounding with the surface at reference pressure.
\<close>

definition example_constants :: constants where
  "example_constants =
     \<lparr>R_d = 287, c_p = 1004.5, g = 9.81, p0 = 100000, rvovrd = 1.608, cvpm = - (5 / 7)\<rparr>"

definition example_sounding :: sounding where
  "example_sounding =
     \<lparr>p_surf = 100000, th_surf = 300, qv_surf = 0.01,
      levels = [\<lparr>z = 0, th = 300, qv = 0.01, u = 0, v = 0\<rparr>,
                \<lparr>z = 1000, th = 302, qv = 0.008, u = 0, v = 0\<rparr>],
      derived = None\<rparr>"

text \<open>The same sounding with its lowest level 100 m above the surface.\<close>

definition raised_sounding :: sounding where
  "raised_sounding =
     \<lparr>p_surf = 100000, th_surf = 300, qv_surf = 0.01,
      levels = [\<lparr>z = 100, th = 300, qv = 0.01, u = 0, v = 0\<rparr>,
                \<lparr>z = 1000, th = 302, qv = 0.008, u = 0, v = 0\<rparr>],
      derived = None\<rparr>"

text \<open>A sounding whose levels are all dry, over a moist surface value.\<close>

definition dry_sounding :: sounding where
  "dry_sounding =
     \<lparr>p_surf = 100000, th_surf = 300, qv_surf = 0.01,
      levels = [\<lparr>z = 100, th = 300, qv = 0, u = 0, v = 0\<rparr>,
                \<lparr>z = 1000, th = 302, qv = 0, u = 0, v = 0\<rparr>],
      derived = None\<rparr>"

text \<open>
  A sounding far too cold for the height of its lowest level: 50 K, first level at 5000 m.
\<close>

definition cold_sounding :: sounding where
  "cold_sounding =
     \<lparr>p_surf = 100000, th_surf = 50, qv_surf = 0,
      levels = [\<lparr>z = 5000, th = 50, qv = 0, u = 0, v = 0\<rparr>,
                \<lparr>z = 6000, th = 50, qv = 0, u = 0, v = 0\<rparr>],
      derived = None\<rparr>"

text \<open>A sounding whose second level lies below its first.\<close>

definition unsorted_sounding :: sounding where
  "unsorted_sounding =
     \<lparr>p_surf = 100000, th_surf = 300, qv_surf = 0.01,
      levels = [\<lparr>z = 1000, th = 300, qv = 0.01, u = 0, v = 0\<rparr>,
                \<lparr>z = 500, th = 302, qv = 0.008, u = 0, v = 0\<rparr>],
      derived = None\<rparr>"

text \<open>A dry sounding whose third level is at 100 km.\<close>

definition thin_sounding :: sounding where
  "thin_sounding =
     \<lparr>p_surf = 100000, th_surf = 300, qv_surf = 0,
      levels = [\<lparr>z = 0, th = 300, qv = 0, u = 0, v = 0\<rparr>,
                \<lparr>z = 1000, th = 300, qv = 0, u = 0, v = 0\<rparr>,
                \<lparr>z = 100000, th = 300, qv = 0, u = 0, v = 0\<rparr>],
      derived = None\<rparr>"

text \<open>
  A stably stratified sounding (potential temperature rising with height) whose moisture
  drops from 10 g/kg to zero within the first 100 m.
\<close>

definition drying_sounding :: sounding where
  "drying_sounding =
     \<lparr>p_surf = 100000, th_surf = 300, qv_surf = 0.01,
      levels = [\<lparr>z = 0, th = 300, qv = 0.01, u = 0, v = 0\<rparr>,
                \<lparr>z = 100, th = 301, qv = 0, u = 0, v = 0\<rparr>],
      derived = None\<rparr>"

section \<open>Properties of the loops\<close>

subsection \<open>The inner loops as repeated steps\<close>

lemma surface_loop_Suc:
  "surface_loop c s rs qvf qvf1 dz (Suc n) pr =
     surface_loop c s rs qvf qvf1 dz n (surface_body c s rs qvf qvf1 dz pr)"
  by (simp add: surface_body_def Let_def)

lemma surface_loop_funpow:
  "surface_loop c s rs qvf qvf1 dz n pr = (surface_body c s rs qvf qvf1 dz ^^ n) pr"
proof (induction n arbitrary: pr)
  case 0
  show ?case by simp
next
  case (Suc n)
  show ?case
    by (simp only: surface_loop_Suc Suc funpow_Suc_right o_apply)
qed

lemma surface_body_char:
  assumes "0 < length (pm pr)" "0 < length (rho pr)"
  shows "surface_body c s rs qvf qvf1 dz pr =
     (let X = relax_step c (th (levels s ! 0)) qvf qvf1 dz (p_surf s) rs (pm pr ! 0, rho pr ! 0)
      in pr\<lparr>pm := (pm pr)[0 := fst X], rho := (rho pr)[0 := snd X]\<rparr>)"
  using assms by (simp add: surface_body_def Let_def relax_step_def eos_def add.commute)

lemma surface_loop_char:
  assumes "0 < length (pm pr)" "0 < length (rho pr)"
  shows "surface_loop c s rs qvf qvf1 dz n pr =
     (let X = (relax_step c (th (levels s ! 0)) qvf qvf1 dz (p_surf s) rs ^^ n) (pm pr ! 0, rho pr ! 0)
      in pr\<lparr>pm := (pm pr)[0 := fst X], rho := (rho pr)[0 := snd X]\<rparr>)"
proof (induction n)
  case 0
  show ?case by (simp add: surface_loop_funpow)
next
  case (Suc n)
  define X where "X = (relax_step c (th (levels s ! 0)) qvf qvf1 dz (p_surf s) rs ^^ n) (pm pr ! 0, rho pr ! 0)"
  have IH: "(surface_body c s rs qvf qvf1 dz ^^ n) pr = pr\<lparr>pm := (pm pr)[0 := fst X], rho := (rho pr)[0 := snd X]\<rparr>"
    using Suc by (simp add: X_def Let_def surface_loop_funpow)
  have step: "(relax_step c (th (levels s ! 0)) qvf qvf1 dz (p_surf s) rs ^^ Suc n) (pm pr ! 0, rho pr ! 0)
      = relax_step c (th (levels s ! 0)) qvf qvf1 dz (p_surf s) rs X"
    by (simp add: X_def)
  have "surface_loop c s rs qvf qvf1 dz (Suc n) pr
        = surface_body c s rs qvf qvf1 dz (pr\<lparr>pm := (pm pr)[0 := fst X], rho := (rho pr)[0 := snd X]\<rparr>)"
    by (simp only: surface_loop_funpow funpow.simps o_apply IH)
  also have "\<dots> = (let Y = relax_step c (th (levels s ! 0)) qvf qvf1 dz (p_surf s) rs X
      in pr\<lparr>pm := (pm pr)[0 := fst Y], rho := (rho pr)[0 := snd Y]\<rparr>)"
    using assms by (subst surface_body_char) (simp_all add: Let_def)
  finally show ?case
    by (simp only: step)
qed

lemma level_loop_Suc:
  "level_loop c s k qvf qvf1 dz (Suc n) pr =
     (case level_body c s k qvf qvf1 dz pr of Inl f \<Rightarrow> Inl f
      | Inr pr' \<Rightarrow> level_loop c s k qvf qvf1 dz n pr')"
  by (simp add: level_body_def Let_def)

lemma level_loop_snoc:
  "level_loop c s k qvf qvf1 dz (Suc n) pr =
     (case level_loop c s k qvf qvf1 dz n pr of Inl f \<Rightarrow> Inl f
      | Inr pr' \<Rightarrow> level_body c s k qvf qvf1 dz pr')"
proof (induction n arbitrary: pr)
  case 0
  show ?case by (simp add: level_body_def)
next
  case (Suc n)
  show ?case
  proof (cases "level_body c s k qvf qvf1 dz pr")
    case (Inl f)
    then show ?thesis by (simp only: level_loop_Suc sum.case)
  next
    case (Inr pr')
    have "level_loop c s k qvf qvf1 dz (Suc (Suc n)) pr = level_loop c s k qvf qvf1 dz (Suc n) pr'"
      by (simp only: level_loop_Suc[of _ _ _ _ _ _ "Suc n"] Inr sum.case)
    also have "\<dots> = (case level_loop c s k qvf qvf1 dz n pr' of Inl f \<Rightarrow> Inl f
      | Inr pr'' \<Rightarrow> level_body c s k qvf qvf1 dz pr'')"
      by (rule Suc)
    also have "level_loop c s k qvf qvf1 dz n pr' = level_loop c s k qvf qvf1 dz (Suc n) pr"
      by (simp only: level_loop_Suc[of _ _ _ _ _ _ n] Inr sum.case)
    finally show ?thesis .
  qed
qed

lemma level_body_char:
  assumes "1 \<le> k" "k < length (pm pr)" "k < length (rho pr)"
  shows "level_body c s k qvf qvf1 dz pr =
     (let Y = relax_step c (th (levels s ! k)) qvf qvf1 dz (pm pr ! (k - 1)) (rho pr ! (k - 1))
                (pm pr ! k, rho pr ! k)
      in if 0 < fst Y then Inr (pr\<lparr>pm := (pm pr)[k := fst Y], rho := (rho pr)[k := snd Y]\<rparr>)
         else Inl (too_cold k (pr\<lparr>pm := (pm pr)[k := fst Y]\<rparr>)))"
  using assms by (simp add: level_body_def Let_def relax_step_def eos_def too_cold_def)

lemma level_loop_success:
  assumes k: "1 \<le> k" "k < length (pm pr)" "k < length (rho pr)"
    and X: "X = (\<lambda>i. (relax_step c (th (levels s ! k)) qvf qvf1 dz (pm pr ! (k - 1)) (rho pr ! (k - 1)) ^^ i)
                (pm pr ! k, rho pr ! k))"
  shows "(\<forall>i<n. 0 < fst (X (Suc i))) \<Longrightarrow>
     level_loop c s k qvf qvf1 dz n pr = Inr (pr\<lparr>pm := (pm pr)[k := fst (X n)], rho := (rho pr)[k := snd (X n)]\<rparr>)"
proof (induction n)
  case 0
  show ?case by (simp add: X)
next
  case (Suc n)
  have IH: "level_loop c s k qvf qvf1 dz n pr = Inr (pr\<lparr>pm := (pm pr)[k := fst (X n)], rho := (rho pr)[k := snd (X n)]\<rparr>)"
    using Suc by simp
  have pos: "0 < fst (X (Suc n))" using Suc.prems by simp
  have step: "X (Suc n) = relax_step c (th (levels s ! k)) qvf qvf1 dz (pm pr ! (k - 1)) (rho pr ! (k - 1)) (X n)"
    by (simp add: X)
  have "level_loop c s k qvf qvf1 dz (Suc n) pr
      = level_body c s k qvf qvf1 dz (pr\<lparr>pm := (pm pr)[k := fst (X n)], rho := (rho pr)[k := snd (X n)]\<rparr>)"
    by (simp only: level_loop_snoc IH sum.case)
  also have "\<dots> = Inr (pr\<lparr>pm := (pm pr)[k := fst (X (Suc n))], rho := (rho pr)[k := snd (X (Suc n))]\<rparr>)"
    using k pos by (subst level_body_char) (simp_all add: Let_def step)
  finally show ?case .
qed

lemma level_loop_Inl_mono:
  "level_loop c s k qvf qvf1 dz n pr = Inl f \<Longrightarrow> level_loop c s k qvf qvf1 dz (n + d) pr = Inl f"
  by (induction d) (simp_all only: add_0_right add_Suc_right level_loop_snoc sum.case)

lemma level_loop_failure:
  assumes k: "1 \<le> k" "k < length (pm pr)" "k < length (rho pr)"
    and X: "X = (\<lambda>i. (relax_step c (th (levels s ! k)) qvf qvf1 dz (pm pr ! (k - 1)) (rho pr ! (k - 1)) ^^ i)
                (pm pr ! k, rho pr ! k))"
    and i: "i < n" "\<forall>j<i. 0 < fst (X (Suc j))" "\<not> 0 < fst (X (Suc i))"
  shows "level_loop c s k qvf qvf1 dz n pr =
     Inl (too_cold k (pr\<lparr>rho := (rho pr)[k := snd (X i)], pm := (pm pr)[k := fst (X (Suc i))]\<rparr>))"
proof -
  have S: "level_loop c s k qvf qvf1 dz i pr = Inr (pr\<lparr>pm := (pm pr)[k := fst (X i)], rho := (rho pr)[k := snd (X i)]\<rparr>)"
    using level_loop_success[OF k X, of i] i(2) by simp
  have step: "X (Suc i) = relax_step c (th (levels s ! k)) qvf qvf1 dz (pm pr ! (k - 1)) (rho pr ! (k - 1)) (X i)"
    by (simp add: X)
  have "level_loop c s k qvf qvf1 dz (Suc i) pr
      = level_body c s k qvf qvf1 dz (pr\<lparr>pm := (pm pr)[k := fst (X i)], rho := (rho pr)[k := snd (X i)]\<rparr>)"
    by (simp only: level_loop_snoc S sum.case)
  also have "\<dots> = Inl (too_cold k (pr\<lparr>rho := (rho pr)[k := snd (X i)], pm := (pm pr)[k := fst (X (Suc i))]\<rparr>))"
    using k i(3) by (subst level_body_char) (simp_all add: Let_def step)
  finally have "level_loop c s k qvf qvf1 dz (Suc i + (n - Suc i)) pr =
     Inl (too_cold k (pr\<lparr>rho := (rho pr)[k := snd (X i)], pm := (pm pr)[k := fst (X (Suc i))]\<rparr>))"
    by (rule level_loop_Inl_mono)
  then show ?thesis using i(1) by simp
qed

subsection \<open>The loop over the levels\<close>

lemma ref_level_Suc_iter:
  "ref_level qvf_of c s rho_surf n (Suc k) = ref_iter qvf_of c s rho_surf n (Suc k) n"
  by (simp add: ref_iter_def)

lemma map_upt_update:
  "k < N \<Longrightarrow> (map f [0..<N])[k := x] = map (\<lambda>j. if j = k then x else f j) [0..<N]"
  by (rule nth_equalityI) (simp_all add: nth_list_update)

lemma column_loop_Cons:
  "column_loop qvf_of c s n (k # ks) pr =
     (case column_body qvf_of c s n k pr of Inl f \<Rightarrow> Inl f
      | Inr pr' \<Rightarrow> column_loop qvf_of c s n ks pr')"
  by (simp add: column_body_def Let_def split: sum.splits)

lemma column_loop_append:
  "column_loop qvf_of c s n (ks @ ks') pr =
     (case column_loop qvf_of c s n ks pr of Inl f \<Rightarrow> Inl f
      | Inr pr' \<Rightarrow> column_loop qvf_of c s n ks' pr')"
proof (induction ks arbitrary: pr)
  case Nil
  show ?case by simp
next
  case (Cons k ks)
  show ?case
    by (cases "column_body qvf_of c s n k pr")
       (simp_all only: append_Cons column_loop_Cons sum.case Cons)
qed

lemma column_body_unfold:
  "column_body qvf_of c s n k pr =
     (case level_loop c s k (qvf_of (qv (levels s ! k))) (qvf1_at s k) (dz_at s k) n
             (pr\<lparr>rho := (rho pr)[k := rho pr ! (k - 1)]\<rparr>) of
        Inl f \<Rightarrow> Inl f
      | Inr pr2 \<Rightarrow> Inr (pr2\<lparr>thm' := (thm' pr2)[k := th (levels s ! k) * qvf_of (qv (levels s ! k))]\<rparr>))"
  by (simp add: column_body_def Let_def qvf1_at_def dz_at_def split: sum.splits)

lemma ref_profile_nth:
  assumes "j < length (levels s)"
  shows "rho (ref_profile qvf_of c s rs n m) ! j = (if j < m then snd (ref_level qvf_of c s rs n j) else 0)"
    and "pm (ref_profile qvf_of c s rs n m) ! j = (if j < m then fst (ref_level qvf_of c s rs n j) else 0)"
    and "thm' (ref_profile qvf_of c s rs n m) ! j =
           (if j < m then th (levels s ! j) * qvf_of (qv (levels s ! j)) else 0)"
    and "p (ref_profile qvf_of c s rs n m) ! j = 0"
  using assms by (simp_all add: ref_profile_def)

lemma ref_profile_length:
  "length (rho (ref_profile qvf_of c s rs n m)) = length (levels s)"
  "length (pm (ref_profile qvf_of c s rs n m)) = length (levels s)"
  "length (thm' (ref_profile qvf_of c s rs n m)) = length (levels s)"
  "length (p (ref_profile qvf_of c s rs n m)) = length (levels s)"
  by (simp_all add: ref_profile_def)

lemma level_X_ref:
  assumes m: "1 \<le> m" "m < length (levels s)"
    and pr1: "pr1 = (ref_profile qvf_of c s rs n m)\<lparr>rho := (rho (ref_profile qvf_of c s rs n m))
                 [m := rho (ref_profile qvf_of c s rs n m) ! (m - 1)]\<rparr>"
  shows "(\<lambda>i. (relax_step c (th (levels s ! m)) (qvf_of (qv (levels s ! m))) (qvf1_at s m) (dz_at s m)
                 (pm pr1 ! (m - 1)) (rho pr1 ! (m - 1)) ^^ i) (pm pr1 ! m, rho pr1 ! m))
         = ref_iter qvf_of c s rs n m"
proof -
  have a: "pm pr1 ! (m - 1) = fst (ref_level qvf_of c s rs n (m - 1))"
    using m by (simp add: pr1 ref_profile_nth)
  have b: "rho pr1 ! (m - 1) = snd (ref_level qvf_of c s rs n (m - 1))"
    using m by (simp add: pr1 ref_profile_nth ref_profile_length nth_list_update)
  have c: "pm pr1 ! m = 0"
    using m by (simp add: pr1 ref_profile_nth)
  have d: "rho pr1 ! m = snd (ref_level qvf_of c s rs n (m - 1))"
    using m by (simp add: pr1 ref_profile_nth ref_profile_length)
  show ?thesis
    unfolding a b c d by (rule ext) (simp add: ref_iter_def level_step_def)
qed

lemma column_body_success:
  assumes m: "1 \<le> m" "m < length (levels s)"
    and pos: "\<forall>i<n. 0 < fst (ref_iter qvf_of c s rs n m (Suc i))"
  shows "column_body qvf_of c s n m (ref_profile qvf_of c s rs n m) = Inr (ref_profile qvf_of c s rs n (Suc m))"
proof -
  define pr where "pr = ref_profile qvf_of c s rs n m"
  define pr1 where "pr1 = pr\<lparr>rho := (rho pr)[m := rho pr ! (m - 1)]\<rparr>"
  have X: "ref_iter qvf_of c s rs n m =
     (\<lambda>i. (relax_step c (th (levels s ! m)) (qvf_of (qv (levels s ! m))) (qvf1_at s m) (dz_at s m)
                 (pm pr1 ! (m - 1)) (rho pr1 ! (m - 1)) ^^ i) (pm pr1 ! m, rho pr1 ! m))"
    using level_X_ref[OF m, of pr1 qvf_of c rs n] by (simp add: pr1_def pr_def)
  have len: "m < length (pm pr1)" "m < length (rho pr1)"
    using m by (simp_all add: pr1_def pr_def ref_profile_length)
  have L: "level_loop c s m (qvf_of (qv (levels s ! m))) (qvf1_at s m) (dz_at s m) n pr1 =
      Inr (pr1\<lparr>pm := (pm pr1)[m := fst (ref_iter qvf_of c s rs n m n)],
                rho := (rho pr1)[m := snd (ref_iter qvf_of c s rs n m n)]\<rparr>)"
    using level_loop_success[OF m(1) len X, of n] pos by simp
  have Sm: "ref_level qvf_of c s rs n m = ref_iter qvf_of c s rs n m n"
    using m(1) ref_level_Suc_iter[of qvf_of c s rs n "m - 1"] by simp
  have "column_body qvf_of c s n m pr =
      Inr (pr1\<lparr>pm := (pm pr1)[m := fst (ref_iter qvf_of c s rs n m n)],
                rho := (rho pr1)[m := snd (ref_iter qvf_of c s rs n m n)],
                thm' := (thm' pr1)[m := th (levels s ! m) * qvf_of (qv (levels s ! m))]\<rparr>)"
    unfolding column_body_unfold pr1_def[symmetric] L by simp
  also have "pr1\<lparr>pm := (pm pr1)[m := fst (ref_iter qvf_of c s rs n m n)],
                rho := (rho pr1)[m := snd (ref_iter qvf_of c s rs n m n)],
                thm' := (thm' pr1)[m := th (levels s ! m) * qvf_of (qv (levels s ! m))]\<rparr>
      = ref_profile qvf_of c s rs n (Suc m)"
    using m unfolding pr1_def pr_def Sm[symmetric]
    by (auto simp add: ref_profile_def map_upt_update less_Suc_eq)
  finally show ?thesis by (simp add: pr_def)
qed

lemma column_body_failure:
  assumes m: "1 \<le> m" "m < length (levels s)"
    and i: "i < n" "\<forall>j<i. 0 < fst (ref_iter qvf_of c s rs n m (Suc j))"
           "\<not> 0 < fst (ref_iter qvf_of c s rs n m (Suc i))"
  shows "column_body qvf_of c s n m (ref_profile qvf_of c s rs n m) =
           Inl (too_cold m (fail_profile qvf_of c s rs n m i))"
proof -
  define pr where "pr = ref_profile qvf_of c s rs n m"
  define pr1 where "pr1 = pr\<lparr>rho := (rho pr)[m := rho pr ! (m - 1)]\<rparr>"
  have X: "ref_iter qvf_of c s rs n m =
     (\<lambda>i. (relax_step c (th (levels s ! m)) (qvf_of (qv (levels s ! m))) (qvf1_at s m) (dz_at s m)
                 (pm pr1 ! (m - 1)) (rho pr1 ! (m - 1)) ^^ i) (pm pr1 ! m, rho pr1 ! m))"
    using level_X_ref[OF m, of pr1 qvf_of c rs n] by (simp add: pr1_def pr_def)
  have len: "m < length (pm pr1)" "m < length (rho pr1)"
    using m by (simp_all add: pr1_def pr_def ref_profile_length)
  have L: "level_loop c s m (qvf_of (qv (levels s ! m))) (qvf1_at s m) (dz_at s m) n pr1 =
      Inl (too_cold m (pr1\<lparr>rho := (rho pr1)[m := snd (ref_iter qvf_of c s rs n m i)],
                            pm := (pm pr1)[m := fst (ref_iter qvf_of c s rs n m (Suc i))]\<rparr>))"
    by (rule level_loop_failure[OF m(1) len X i])
  have "column_body qvf_of c s n m pr =
      Inl (too_cold m (pr1\<lparr>rho := (rho pr1)[m := snd (ref_iter qvf_of c s rs n m i)],
                            pm := (pm pr1)[m := fst (ref_iter qvf_of c s rs n m (Suc i))]\<rparr>))"
    unfolding column_body_unfold pr1_def[symmetric] L by simp
  also have "pr1\<lparr>rho := (rho pr1)[m := snd (ref_iter qvf_of c s rs n m i)],
                            pm := (pm pr1)[m := fst (ref_iter qvf_of c s rs n m (Suc i))]\<rparr>
       = fail_profile qvf_of c s rs n m i"
    by (simp add: pr1_def pr_def fail_profile_def Let_def)
  finally show ?thesis by (simp add: pr_def)
qed

lemma positive_below_Suc:
  "positive_below qvf_of c s rs n (Suc m) \<longleftrightarrow>
     positive_below qvf_of c s rs n m \<and> (1 \<le> m \<longrightarrow> (\<forall>i<n. 0 < fst (ref_iter qvf_of c s rs n m (Suc i))))"
  by (auto simp add: positive_below_def less_Suc_eq)

lemma column_loop_success:
  assumes "1 \<le> m" "m \<le> length (levels s)" "positive_below qvf_of c s rs n m"
  shows "column_loop qvf_of c s n [1..<m] (ref_profile qvf_of c s rs n 1) = Inr (ref_profile qvf_of c s rs n m)"
  using assms
proof (induction m)
  case 0
  then show ?case by simp
next
  case (Suc m)
  show ?case
  proof (cases "m = 0")
    case True
    then show ?thesis by simp
  next
    case False
    then have m: "1 \<le> m" "m < length (levels s)" using Suc.prems by simp_all
    have pb: "positive_below qvf_of c s rs n m" "\<forall>i<n. 0 < fst (ref_iter qvf_of c s rs n m (Suc i))"
      using Suc.prems(3) m(1) by (simp_all add: positive_below_Suc)
    have IH: "column_loop qvf_of c s n [1..<m] (ref_profile qvf_of c s rs n 1) = Inr (ref_profile qvf_of c s rs n m)"
      using Suc.IH m pb by simp
    have "[1..<Suc m] = [1..<m] @ [m]" using m(1) by simp
    then show ?thesis
      by (simp only: column_loop_append IH sum.case column_body_def[symmetric]
            column_body_success[OF m pb(2)])
  qed
qed

lemma column_loop_failure:
  assumes k: "1 \<le> k" "k < m" "m \<le> length (levels s)"
    and pb: "positive_below qvf_of c s rs n k"
    and i: "i < n" "\<forall>j<i. 0 < fst (ref_iter qvf_of c s rs n k (Suc j))"
           "\<not> 0 < fst (ref_iter qvf_of c s rs n k (Suc i))"
  shows "column_loop qvf_of c s n [1..<m] (ref_profile qvf_of c s rs n 1) =
           Inl (too_cold k (fail_profile qvf_of c s rs n k i))"
proof -
  have "[1..<m] = [1..<k] @ [k..<m]"
    using k upt_add_eq_append[of 1 k "m - k"] by simp
  moreover have "[k..<m] = k # [Suc k..<m]"
    using k by (simp add: upt_conv_Cons)
  ultimately have split: "[1..<m] = [1..<k] @ k # [Suc k..<m]"
    by simp
  have S: "column_loop qvf_of c s n [1..<k] (ref_profile qvf_of c s rs n 1) = Inr (ref_profile qvf_of c s rs n k)"
    using column_loop_success[of k s qvf_of c rs n] k pb by simp
  have kk: "1 \<le> k" "k < length (levels s)" using k by simp_all
  show ?thesis
    by (simp only: split column_loop_append S sum.case column_loop_Cons
          column_body_failure[OF kk i])
qed

subsection \<open>The two routines\<close>

lemma stage1_ref:
  assumes "levels s \<noteq> []"
  shows "stage1 qf c s rs n = ref_profile qf c s rs n 1"
proof -
  define N where "N = length (levels s)"
  have N: "0 < N" using assms by (simp add: N_def)
  define pr0 where "pr0 = \<lparr>rho = (replicate N 0)[0 := rs],
     thm' = replicate N 0, pm = replicate N 0, p = replicate N (0::real)\<rparr>"
  define X where "X = (surface_step qf c s rs ^^ n) (0, rs)"
  have len: "0 < length (pm pr0)" "0 < length (rho pr0)" using N by (simp_all add: pr0_def)
  have start: "pm pr0 ! 0 = 0" "rho pr0 ! 0 = rs" using N by (simp_all add: pr0_def)
  have S: "surface_loop c s rs (qf (qv (levels s ! 0))) (1 + qv (levels s ! 0)) (z (levels s ! 0)) n pr0
      = pr0\<lparr>pm := (pm pr0)[0 := fst X], rho := (rho pr0)[0 := snd X]\<rparr>"
    unfolding surface_loop_char[OF len] start Let_def X_def surface_step_def ..
  have unf: "stage1 qf c s rs n =
      (surface_loop c s rs (qf (qv (levels s ! 0))) (1 + qv (levels s ! 0)) (z (levels s ! 0)) n pr0)
        \<lparr>thm' := (thm' (surface_loop c s rs (qf (qv (levels s ! 0))) (1 + qv (levels s ! 0))
                          (z (levels s ! 0)) n pr0))
                    [0 := th (levels s ! 0) * qf (qv (levels s ! 0))]\<rparr>"
    by (simp add: stage1_def Let_def pr0_def N_def)
  have a: "(replicate N 0)[0 := rs, 0 := snd X] = map (\<lambda>j. if j < 1 then snd X else 0) [0..<N]"
    by (rule nth_equalityI) (simp_all add: nth_list_update)
  have b: "(replicate N 0)[0 := fst X] = map (\<lambda>j. if j < 1 then fst X else 0) [0..<N]"
    by (rule nth_equalityI) (simp_all add: nth_list_update)
  have d: "(replicate N 0)[0 := th (levels s ! 0) * qf (qv (levels s ! 0))]
      = map (\<lambda>j. if j < 1 then th (levels s ! j) * qf (qv (levels s ! j)) else 0) [0..<N]"
    by (rule nth_equalityI) (simp_all add: nth_list_update)
  have "stage1 qf c s rs n =
      \<lparr>rho = (replicate N 0)[0 := rs, 0 := snd X],
       thm' = (replicate N 0)[0 := th (levels s ! 0) * qf (qv (levels s ! 0))],
       pm = (replicate N 0)[0 := fst X], p = replicate N 0\<rparr>"
    unfolding unf S by (simp add: pr0_def)
  also have "\<dots> = ref_profile qf c s rs n 1"
    unfolding a b d by (simp add: ref_profile_def X_def N_def)
  finally show ?thesis .
qed

lemma integrate_unfold:
  assumes "levels s \<noteq> []"
  shows "integrate c s fm Niter =
     (case column_loop (qvf_for c fm) c s (nat Niter) [1..<length (levels s)]
             (ref_profile (qvf_for c fm) c s (rho_surf_of c s fm) (nat Niter) 1) of
        Inl f \<Rightarrow> Inl f
      | Inr pr \<Rightarrow> Inr (s\<lparr>derived := Some (stage3 c s pr)\<rparr>))"
proof (cases fm)
  case LEGACY
  have "integrate_column_wrf c s Niter =
     (case column_loop (qvf_wrf c) c s (nat Niter) [1..<length (levels s)]
             (stage1 (qvf_wrf c) c s (rho_surf_of c s LEGACY) (nat Niter)) of
        Inl f \<Rightarrow> Inl f
      | Inr pr \<Rightarrow> Inr (s\<lparr>derived := Some (stage3 c s pr)\<rparr>))"
    using assms
    by (simp add: integrate_column_wrf_def stage1_def Let_def stage3_def rho_surf_of_def eos_def qvf_wrf_def
          split: sum.split)
  then show ?thesis by (simp add: LEGACY qvf_for_def stage1_ref[OF assms])
next
  case VIRTUAL_POTENTIAL_TEMPERATURE
  have "integrate_column c s Niter =
     (case column_loop (qvf_vpt c) c s (nat Niter) [1..<length (levels s)]
             (stage1 (qvf_vpt c) c s (rho_surf_of c s VIRTUAL_POTENTIAL_TEMPERATURE) (nat Niter)) of
        Inl f \<Rightarrow> Inl f
      | Inr pr \<Rightarrow> Inr (s\<lparr>derived := Some (stage3 c s pr)\<rparr>))"
    using assms
    by (simp add: integrate_column_def stage1_def Let_def stage3_def rho_surf_of_def eos_def qvf_vpt_def
          split: sum.split)
  then show ?thesis by (simp add: VIRTUAL_POTENTIAL_TEMPERATURE qvf_for_def stage1_ref[OF assms])
qed

lemma integrate_empty:
  assumes "levels s = []"
  shows "integrate c s LEGACY Niter = Inl \<lparr>exc = IndexError, at_level = 0, obj = derived s\<rparr>"
    and "integrate c s VIRTUAL_POTENTIAL_TEMPERATURE Niter =
           Inl \<lparr>exc = IndexError, at_level = 0, obj = Some \<lparr>rho = [], thm' = [], pm = [], p = []\<rparr>\<rparr>"
  using assms by (simp_all add: integrate_column_wrf_def integrate_column_def Let_def)

lemma integrate_success:
  assumes "levels s \<noteq> []"
    and "positive_below (qvf_for c fm) c s (rho_surf_of c s fm) (nat Niter) (length (levels s))"
  shows "integrate c s fm Niter =
     Inr (s\<lparr>derived := Some (stage3 c s
            (ref_profile (qvf_for c fm) c s (rho_surf_of c s fm) (nat Niter) (length (levels s))))\<rparr>)"
proof -
  have "1 \<le> length (levels s)" using assms(1) by (simp add: Suc_le_eq)
  then show ?thesis
    using column_loop_success[of "length (levels s)" s "qvf_for c fm" c "rho_surf_of c s fm" "nat Niter"] assms
    by (simp add: integrate_unfold)
qed

lemma integrate_failure:
  assumes "1 \<le> k" "k < length (levels s)"
    and "positive_below (qvf_for c fm) c s (rho_surf_of c s fm) (nat Niter) k"
    and "i < nat Niter"
    and "\<forall>j<i. 0 < fst (ref_iter (qvf_for c fm) c s (rho_surf_of c s fm) (nat Niter) k (Suc j))"
    and "\<not> 0 < fst (ref_iter (qvf_for c fm) c s (rho_surf_of c s fm) (nat Niter) k (Suc i))"
  shows "integrate c s fm Niter =
     Inl (too_cold k (fail_profile (qvf_for c fm) c s (rho_surf_of c s fm) (nat Niter) k i))"
proof -
  have ne: "levels s \<noteq> []" using assms(2) by auto
  show ?thesis
    using column_loop_failure[OF assms(1,2) order_refl assms(3,4,5,6)]
    by (simp add: integrate_unfold[OF ne])
qed

lemma first_failure:
  assumes "\<not> positive_below qf c s rs n m"
  shows "\<exists>k i. 1 \<le> k \<and> k < m \<and> positive_below qf c s rs n k \<and> i < n
           \<and> (\<forall>j<i. 0 < fst (ref_iter qf c s rs n k (Suc j)))
           \<and> \<not> 0 < fst (ref_iter qf c s rs n k (Suc i))"
proof -
  define bad where "bad = (\<lambda>k. 1 \<le> k \<and> k < m \<and> (\<exists>i<n. \<not> 0 < fst (ref_iter qf c s rs n k (Suc i))))"
  have "\<exists>k. bad k" using assms by (auto simp add: positive_below_def bad_def)
  then obtain k where k: "bad k" "\<forall>k'<k. \<not> bad k'"
    using exists_least_iff[of bad] by blast
  have pb: "positive_below qf c s rs n k"
    unfolding positive_below_def
  proof (intro allI impI)
    fix k' i assume a: "1 \<le> k' \<and> k' < k" "i < n"
    then have "\<not> bad k'" using k(2) by simp
    moreover have "k' < m" using a k(1) by (simp add: bad_def)
    ultimately show "0 < fst (ref_iter qf c s rs n k' (Suc i))"
      using a by (auto simp add: bad_def)
  qed
  define badi where "badi = (\<lambda>i. i < n \<and> \<not> 0 < fst (ref_iter qf c s rs n k (Suc i)))"
  have "\<exists>i. badi i" using k(1) by (auto simp add: bad_def badi_def)
  then obtain i where i: "badi i" "\<forall>j<i. \<not> badi j"
    using exists_least_iff[of badi] by blast
  have "\<forall>j<i. 0 < fst (ref_iter qf c s rs n k (Suc j))"
    using i by (auto simp add: badi_def)
  then show ?thesis
    using k(1) pb i(1) by (auto simp add: bad_def badi_def)
qed

subsection \<open>Stage 3\<close>

lemma dry_loop_frame:
  "rho (dry_loop c s ks pr) = rho pr"
  "thm' (dry_loop c s ks pr) = thm' pr"
  "pm (dry_loop c s ks pr) = pm pr"
  "length (p (dry_loop c s ks pr)) = length (p pr)"
  by (induction ks arbitrary: pr) (simp_all add: Let_def)

lemma dry_loop_p:
  assumes "m < length (p pr)"
  shows "(\<forall>j. m \<le> j \<longrightarrow> p (dry_loop c s (rev [0..<m]) pr) ! j = p pr ! j) \<and>
         (\<forall>k<m. p (dry_loop c s (rev [0..<m]) pr) ! k =
            p (dry_loop c s (rev [0..<m]) pr) ! (k + 1)
            + 0.5 * (z (levels s ! (k + 1)) - z (levels s ! k)) * (rho pr ! k + rho pr ! (k + 1)) * g c)"
  using assms
proof (induction m arbitrary: pr)
  case 0
  show ?case by simp
next
  case (Suc m)
  define pr1 where "pr1 =
     pr\<lparr>p := (p pr)[m := p pr ! (m + 1)
            + 0.5 * (z (levels s ! (m + 1)) - z (levels s ! m)) * (rho pr ! m + rho pr ! (m + 1)) * g c]\<rparr>"
  have unf: "dry_loop c s (rev [0..<Suc m]) pr = dry_loop c s (rev [0..<m]) pr1"
    by (simp add: pr1_def Let_def)
  have len: "m < length (p pr1)" using Suc.prems by (simp add: pr1_def)
  note IH = Suc.IH[OF len]
  have rho1: "rho pr1 = rho pr" by (simp add: pr1_def)
  have keep: "\<forall>j. m \<le> j \<longrightarrow> p (dry_loop c s (rev [0..<m]) pr1) ! j = p pr1 ! j"
    using IH by blast
  have below: "\<forall>k<m. p (dry_loop c s (rev [0..<m]) pr1) ! k =
            p (dry_loop c s (rev [0..<m]) pr1) ! (k + 1)
            + 0.5 * (z (levels s ! (k + 1)) - z (levels s ! k)) * (rho pr ! k + rho pr ! (k + 1)) * g c"
    using IH by (simp add: rho1)
  have pm1: "p pr1 ! m = p pr ! (m + 1)
            + 0.5 * (z (levels s ! (m + 1)) - z (levels s ! m)) * (rho pr ! m + rho pr ! (m + 1)) * g c"
    using Suc.prems by (simp add: pr1_def)
  have pj: "\<And>j. Suc m \<le> j \<Longrightarrow> p pr1 ! j = p pr ! j"
    by (simp add: pr1_def)
  show ?case
    unfolding unf
  proof (intro conjI allI impI)
    fix j assume "Suc m \<le> j"
    then show "p (dry_loop c s (rev [0..<m]) pr1) ! j = p pr ! j"
      using keep pj by simp
  next
    fix k assume "k < Suc m"
    then consider "k < m" | "k = m" by linarith
    then show "p (dry_loop c s (rev [0..<m]) pr1) ! k =
            p (dry_loop c s (rev [0..<m]) pr1) ! (k + 1)
            + 0.5 * (z (levels s ! (k + 1)) - z (levels s ! k)) * (rho pr ! k + rho pr ! (k + 1)) * g c"
    proof cases
      case 1
      then show ?thesis using below by simp
    next
      case 2
      have "p (dry_loop c s (rev [0..<m]) pr1) ! m = p pr1 ! m" using keep by simp
      moreover have "p (dry_loop c s (rev [0..<m]) pr1) ! (m + 1) = p pr ! (m + 1)"
        using keep pj[of "m + 1"] by simp
      ultimately show ?thesis using pm1 2 by simp
    qed
  qed
qed

lemma integrate_InrD:
  assumes "integrate c s fm Niter = Inr s'"
  shows "levels s \<noteq> []"
    and "positive_below (qvf_for c fm) c s (rho_surf_of c s fm) (nat Niter) (length (levels s))"
    and "s' = s\<lparr>derived := Some (stage3 c s
            (ref_profile (qvf_for c fm) c s (rho_surf_of c s fm) (nat Niter) (length (levels s))))\<rparr>"
proof -
  show ne: "levels s \<noteq> []"
    using assms integrate_empty[of s c Niter] by (cases fm) auto
  show pb: "positive_below (qvf_for c fm) c s (rho_surf_of c s fm) (nat Niter) (length (levels s))"
  proof (rule ccontr)
    assume "\<not> ?thesis"
    from first_failure[OF this] obtain k i where
      "1 \<le> k" "k < length (levels s)"
      "positive_below (qvf_for c fm) c s (rho_surf_of c s fm) (nat Niter) k"
      "i < nat Niter"
      "\<forall>j<i. 0 < fst (ref_iter (qvf_for c fm) c s (rho_surf_of c s fm) (nat Niter) k (Suc j))"
      "\<not> 0 < fst (ref_iter (qvf_for c fm) c s (rho_surf_of c s fm) (nat Niter) k (Suc i))"
      by blast
    from integrate_failure[OF this] show False using assms by simp
  qed
  show "s' = s\<lparr>derived := Some (stage3 c s
            (ref_profile (qvf_for c fm) c s (rho_surf_of c s fm) (nat Niter) (length (levels s))))\<rparr>"
    using integrate_success[OF ne pb] assms by simp
qed

lemma stage3_frame:
  "rho (stage3 c s pr) = rho pr" "thm' (stage3 c s pr) = thm' pr" "pm (stage3 c s pr) = pm pr"
  by (simp_all add: stage3_def dry_loop_frame)

lemma stage3_p:
  assumes "levels s \<noteq> []" "length (p pr) = length (levels s)"
  shows "p (stage3 c s pr) ! (length (levels s) - 1) = pm pr ! (length (levels s) - 1)"
    and "k + 1 < length (levels s) \<Longrightarrow>
           p (stage3 c s pr) ! k = p (stage3 c s pr) ! (k + 1)
             + 0.5 * (z (levels s ! (k + 1)) - z (levels s ! k)) * (rho pr ! k + rho pr ! (k + 1)) * g c"
proof -
  define N where "N = length (levels s)"
  define pr1 where "pr1 = pr\<lparr>p := (p pr)[N - 1 := pm pr ! (N - 1)]\<rparr>"
  have N: "0 < N" using assms(1) by (simp add: N_def)
  have len: "N - 1 < length (p pr1)" using N assms(2) by (simp add: pr1_def N_def)
  have st: "stage3 c s pr = dry_loop c s (rev [0..<N - 1]) pr1"
    by (simp add: stage3_def pr1_def N_def)
  note D = dry_loop_p[OF len, of c s]
  have "p (stage3 c s pr) ! (N - 1) = p pr1 ! (N - 1)"
    unfolding st using D by simp
  also have "\<dots> = pm pr ! (N - 1)"
    using N assms(2) by (simp add: pr1_def N_def)
  finally show "p (stage3 c s pr) ! (length (levels s) - 1) = pm pr ! (length (levels s) - 1)"
    by (simp add: N_def)
  assume "k + 1 < length (levels s)"
  then have "k < N - 1" by (simp add: N_def)
  then show "p (stage3 c s pr) ! k = p (stage3 c s pr) ! (k + 1)
             + 0.5 * (z (levels s ! (k + 1)) - z (levels s ! k)) * (rho pr ! k + rho pr ! (k + 1)) * g c"
    unfolding st using D by (simp add: pr1_def)
qed

subsection \<open>Facts used by several claims\<close>

lemma example_iter1:
  "0 < fst (ref_iter (qvf_for example_constants fm) example_constants example_sounding
              (rho_surf_of example_constants example_sounding fm) (Suc 0) (Suc 0) (Suc 0))"
  by (cases fm)
     (simp_all add: ref_iter_def level_step_def surface_step_def relax_step_def eos_def Let_def
        qvf1_at_def dz_at_def qvf_for_def qvf_wrf_def qvf_vpt_def rho_surf_of_def
        example_constants_def example_sounding_def)

lemma example_positive:
  "positive_below (qvf_for example_constants fm) example_constants example_sounding
     (rho_surf_of example_constants example_sounding fm) (Suc 0) (length (levels example_sounding))"
  unfolding positive_below_def
proof (intro allI impI)
  fix k i :: nat
  assume "1 \<le> k \<and> k < length (levels example_sounding)" and "i < Suc 0"
  then have "k = Suc 0" "i = 0" by (simp_all add: example_sounding_def)
  then show "0 < fst (ref_iter (qvf_for example_constants fm) example_constants example_sounding
              (rho_surf_of example_constants example_sounding fm) (Suc 0) k (Suc i))"
    using example_iter1 by simp
qed

lemma example_succeeds:
  "integrate example_constants example_sounding fm 1 =
     Inr (example_sounding\<lparr>derived := Some (stage3 example_constants example_sounding
       (ref_profile (qvf_for example_constants fm) example_constants example_sounding
          (rho_surf_of example_constants example_sounding fm) (Suc 0) 2))\<rparr>)"
proof -
  have ne: "levels example_sounding \<noteq> []" by (simp add: example_sounding_def)
  have len: "length (levels example_sounding) = 2" by (simp add: example_sounding_def)
  show ?thesis
    using integrate_success[OF ne, of example_constants fm 1] example_positive[of fm]
    by (simp add: len)
qed

lemma surface_loop_cong:
  "p_surf s1 = p_surf s2 \<Longrightarrow> levels s1 = levels s2 \<Longrightarrow>
     surface_loop c s1 rs qvf qvf1 dz n pr = surface_loop c s2 rs qvf qvf1 dz n pr"
  by (induction n arbitrary: pr) (simp_all add: Let_def)

lemma level_loop_cong:
  "levels s1 = levels s2 \<Longrightarrow>
     level_loop c s1 k qvf qvf1 dz n pr = level_loop c s2 k qvf qvf1 dz n pr"
  by (induction n arbitrary: pr) (simp_all add: Let_def)

lemma column_loop_cong:
  "levels s1 = levels s2 \<Longrightarrow>
     column_loop qf c s1 n ks pr = column_loop qf c s2 n ks pr"
  by (induction ks arbitrary: pr) (simp_all add: Let_def level_loop_cong[of s1 s2] split: sum.splits)

lemma dry_loop_cong:
  "levels s1 = levels s2 \<Longrightarrow> dry_loop c s1 ks pr = dry_loop c s2 ks pr"
  by (induction ks arbitrary: pr) (simp_all add: Let_def)

lemma column_loop_qvf_cong:
  "\<forall>k\<in>set ks. qf1 (qv (levels s ! k)) = qf2 (qv (levels s ! k)) \<Longrightarrow>
     column_loop qf1 c s n ks pr = column_loop qf2 c s n ks pr"
  by (induction ks arbitrary: pr) (simp_all add: Let_def split: sum.splits)

lemma integrate_column_wrf_cong:
  assumes "p_surf s1 = p_surf s2" "th_surf s1 = th_surf s2" "levels s1 = levels s2"
    "levels s1 \<noteq> [] \<or> derived s1 = derived s2"
  shows "outcome (integrate_column_wrf c s1 Niter) = outcome (integrate_column_wrf c s2 Niter)"
  using assms
  by (auto simp add: integrate_column_wrf_def outcome_def Let_def
        surface_loop_cong[of s1 s2] column_loop_cong[of s1 s2] dry_loop_cong[of s1 s2]
        split: sum.splits)

lemma integrate_InlD:
  assumes "integrate c s fm Niter = Inl f" and "levels s \<noteq> []"
  shows "\<exists>k i. 1 \<le> k \<and> k < length (levels s) \<and> i < nat Niter
           \<and> positive_below (qvf_for c fm) c s (rho_surf_of c s fm) (nat Niter) k
           \<and> (\<forall>j<i. 0 < fst (ref_iter (qvf_for c fm) c s (rho_surf_of c s fm) (nat Niter) k (Suc j)))
           \<and> \<not> 0 < fst (ref_iter (qvf_for c fm) c s (rho_surf_of c s fm) (nat Niter) k (Suc i))
           \<and> f = too_cold k (fail_profile (qvf_for c fm) c s (rho_surf_of c s fm) (nat Niter) k i)"
proof -
  have "\<not> positive_below (qvf_for c fm) c s (rho_surf_of c s fm) (nat Niter) (length (levels s))"
    using integrate_success[OF assms(2), of c fm Niter] assms(1) by auto
  from first_failure[OF this] obtain k i where ki:
      "1 \<le> k" "k < length (levels s)"
      "positive_below (qvf_for c fm) c s (rho_surf_of c s fm) (nat Niter) k"
      "i < nat Niter"
      "\<forall>j<i. 0 < fst (ref_iter (qvf_for c fm) c s (rho_surf_of c s fm) (nat Niter) k (Suc j))"
      "\<not> 0 < fst (ref_iter (qvf_for c fm) c s (rho_surf_of c s fm) (nat Niter) k (Suc i))"
    by blast
  from integrate_failure[OF this] assms(1)
  have "f = too_cold k (fail_profile (qvf_for c fm) c s (rho_surf_of c s fm) (nat Niter) k i)"
    by simp
  with ki show ?thesis by blast
qed

lemma fail_profile_below:
  assumes "j < k" "k < length (levels s)"
  shows "pm (fail_profile qf c s rs n k i) ! j = fst (ref_level qf c s rs n j)"
    and "rho (fail_profile qf c s rs n k i) ! j = snd (ref_level qf c s rs n j)"
    and "thm' (fail_profile qf c s rs n k i) ! j = th (levels s ! j) * qf (qv (levels s ! j))"
  using assms by (simp_all add: fail_profile_def Let_def ref_profile_nth)

lemma level0_always:
  assumes "levels s \<noteq> []"
  shows "\<exists>pr. snd (outcome (integrate c s fm Niter)) = Some pr
           \<and> pm pr ! 0 = fst (ref_level (qvf_for c fm) c s (rho_surf_of c s fm) (nat Niter) 0)
           \<and> rho pr ! 0 = snd (ref_level (qvf_for c fm) c s (rho_surf_of c s fm) (nat Niter) 0)"
proof (cases "integrate c s fm Niter")
  case (Inr s')
  have N: "0 < length (levels s)" using assms by simp
  show ?thesis
    using integrate_InrD(3)[OF Inr] N
    by (simp add: Inr outcome_def stage3_frame ref_profile_nth)
next
  case (Inl f)
  from integrate_InlD[OF Inl assms] obtain k i where
    "1 \<le> k" "k < length (levels s)"
    "f = too_cold k (fail_profile (qvf_for c fm) c s (rho_surf_of c s fm) (nat Niter) k i)"
    by blast
  then show ?thesis
    by (simp add: Inl outcome_def too_cold_def fail_profile_below)
qed

lemma level0_one_iteration:
  "fst (ref_level qf c s rs (Suc 0) 0) =
     p_surf s - 0.5 * z (levels s ! 0) * (rs + rs) * g c * (1 + qv (levels s ! 0))"
  by (simp add: surface_step_def relax_step_def Let_def)

lemma integrate_derived_irrelevant:
  assumes "levels s \<noteq> []"
  shows "integrate c (s\<lparr>derived := a\<rparr>) fm Niter = integrate c (s\<lparr>derived := b\<rparr>) fm Niter"
  using assms
  by (cases fm)
     (simp_all add: integrate_column_wrf_def integrate_column_def Let_def
        surface_loop_cong[of "s\<lparr>derived := a\<rparr>" "s\<lparr>derived := b\<rparr>"]
        column_loop_cong[of "s\<lparr>derived := a\<rparr>" "s\<lparr>derived := b\<rparr>"]
        dry_loop_cong[of "s\<lparr>derived := a\<rparr>" "s\<lparr>derived := b\<rparr>"]
        split: sum.splits)

lemma powr_neg_exponent_bounds:
  fixes x a :: real
  assumes "0 < x" "x \<le> 1" "- 1 \<le> a" "a \<le> 0"
  shows "1 \<le> x powr a" and "x powr a \<le> 1 / x"
proof -
  have "x powr 0 \<le> x powr a"
    by (rule powr_mono') (use assms in simp_all)
  then show "1 \<le> x powr a" using assms by simp
  have "x powr a \<le> x powr (- 1)"
    by (rule powr_mono') (use assms in simp_all)
  also have "x powr (- 1) = 1 / x"
    using assms by (simp add: powr_minus divide_inverse)
  finally show "x powr a \<le> 1 / x" .
qed

lemma eos_nonneg:
  assumes "0 \<le> R_d c" "0 \<le> p0 c" "0 \<le> thv" "0 \<le> qvf"
  shows "0 \<le> eos c thv qvf P"
  using assms by (simp add: eos_def)

lemma eos_bounds:
  assumes "0 < R_d c" "0 < p0 c" "0 < thv" "0 < qvf" "0 < P" "P \<le> p0 c" "- 1 \<le> cvpm c" "cvpm c \<le> 0"
  shows "(P / p0 c) * (p0 c / (R_d c * thv * qvf)) \<le> eos c thv qvf P"
    and "eos c thv qvf P \<le> p0 c / (R_d c * thv * qvf)"
proof -
  define x where "x = P / p0 c"
  define A where "A = R_d c * thv * qvf / p0 c"
  have x: "0 < x" "x \<le> 1" using assms by (simp_all add: x_def)
  have A: "0 < A" using assms by (simp add: A_def)
  have e: "eos c thv qvf P = 1 / (A * x powr cvpm c)"
    by (simp add: eos_def A_def x_def)
  have b: "1 \<le> x powr cvpm c" "x powr cvpm c \<le> 1 / x"
    using powr_neg_exponent_bounds[OF x assms(7,8)] by simp_all
  have "1 / (A * x powr cvpm c) \<le> 1 / (A * 1)"
    by (rule frac_le) (use A b(1) in simp_all)
  then show "eos c thv qvf P \<le> p0 c / (R_d c * thv * qvf)"
    using assms by (simp add: e A_def)
  have "0 < x powr cvpm c" using b(1) by linarith
  then have "0 < A * x powr cvpm c" using A by simp
  moreover have "A * x powr cvpm c \<le> A * (1 / x)"
    by (rule mult_left_mono) (use A b(2) in simp_all)
  ultimately have "1 / (A * (1 / x)) \<le> 1 / (A * x powr cvpm c)"
    by (intro frac_le) simp_all
  then show "(P / p0 c) * (p0 c / (R_d c * thv * qvf)) \<le> eos c thv qvf P"
    using assms by (simp add: e A_def x_def)
qed

lemma positive_below_1: "positive_below qf c s rs n (Suc 0)"
  by (simp add: positive_below_def)

lemma ref_iter_first:
  "fst (ref_iter qf c s rs n k (Suc 0)) =
     fst (ref_level qf c s rs n (k - 1))
       - 0.5 * dz_at s k * (snd (ref_level qf c s rs n (k - 1)) + snd (ref_level qf c s rs n (k - 1)))
           * g c * qvf1_at s k"
  by (simp add: ref_iter_def level_step_def relax_step_def Let_def)

lemma ref_level0_one:
  "ref_level qf c s rs (Suc 0) 0 =
     (p_surf s - 0.5 * z (levels s ! 0) * (rs + rs) * g c * (1 + qv (levels s ! 0)),
      eos c (th (levels s ! 0)) (qf (qv (levels s ! 0)))
        (p_surf s - 0.5 * z (levels s ! 0) * (rs + rs) * g c * (1 + qv (levels s ! 0))))"
  by (simp add: surface_step_def relax_step_def Let_def)

lemma qvf_for_zero: "qvf_for c fm 0 = 1"
  by (cases fm) (simp_all add: qvf_for_def qvf_wrf_def qvf_vpt_def)

lemma cold_rho_surf: "rho_surf_of example_constants cold_sounding fm = 100000 / (287 * 50)"
  by (cases fm)
     (simp_all add: rho_surf_of_def eos_def qvf_wrf_def qvf_vpt_def cold_sounding_def example_constants_def)

lemma cold_level0:
  "fst (ref_level (qvf_for example_constants fm) example_constants cold_sounding
          (rho_surf_of example_constants cold_sounding fm) (Suc 0) 0) = 100000 - 98100000 / 287"
  "0 \<le> snd (ref_level (qvf_for example_constants fm) example_constants cold_sounding
          (rho_surf_of example_constants cold_sounding fm) (Suc 0) 0)"
proof -
  show "fst (ref_level (qvf_for example_constants fm) example_constants cold_sounding
          (rho_surf_of example_constants cold_sounding fm) (Suc 0) 0) = 100000 - 98100000 / 287"
    unfolding ref_level0_one cold_rho_surf
    by (simp add: cold_sounding_def example_constants_def)
  have "0 \<le> eos example_constants (th (levels cold_sounding ! 0))
           (qvf_for example_constants fm (qv (levels cold_sounding ! 0))) P" for P
    by (rule eos_nonneg) (simp_all add: example_constants_def cold_sounding_def qvf_for_zero)
  then show "0 \<le> snd (ref_level (qvf_for example_constants fm) example_constants cold_sounding
          (rho_surf_of example_constants cold_sounding fm) (Suc 0) 0)"
    unfolding ref_level0_one by simp
qed

lemma cold_iter1:
  "\<not> 0 < fst (ref_iter (qvf_for example_constants fm) example_constants cold_sounding
          (rho_surf_of example_constants cold_sounding fm) (Suc 0) (Suc 0) (Suc 0))"
proof -
  define r where "r = snd (ref_level (qvf_for example_constants fm) example_constants cold_sounding
          (rho_surf_of example_constants cold_sounding fm) (Suc 0) 0)"
  have r: "0 \<le> r" unfolding r_def by (rule cold_level0)
  have "fst (ref_iter (qvf_for example_constants fm) example_constants cold_sounding
          (rho_surf_of example_constants cold_sounding fm) (Suc 0) (Suc 0) (Suc 0))
        = (100000 - 98100000 / 287) - 0.5 * 1000 * (r + r) * 9.81 * 1"
    unfolding ref_iter_first
    by (simp add: cold_level0 r_def dz_at_def qvf1_at_def del: ref_level.simps)
       (simp add: cold_sounding_def example_constants_def del: ref_level.simps)
  then show ?thesis using r by simp
qed

lemma cold_fails:
  "integrate example_constants cold_sounding fm 1 =
     Inl (too_cold 1 (fail_profile (qvf_for example_constants fm) example_constants cold_sounding
            (rho_surf_of example_constants cold_sounding fm) (Suc 0) 1 0))"
proof -
  have len: "1 < length (levels cold_sounding)" by (simp add: cold_sounding_def)
  show ?thesis
    using integrate_failure[of 1 cold_sounding example_constants fm 1 0] len cold_iter1[of fm]
    by (simp add: positive_below_1)
qed

lemma relax_step_eos:
  "snd (relax_step c thv qvf qvf1 dz Pb rb X) = eos c thv qvf (fst (relax_step c thv qvf qvf1 dz Pb rb X))"
  by (simp add: relax_step_def Let_def)

lemma integrate_Inl_exc:
  assumes "integrate c s fm Niter = Inl f"
  shows "(levels s = [] \<and> exc f = IndexError)
       \<or> (levels s \<noteq> [] \<and> exc f = AssertionError ''too cold for chosen height'')"
proof (cases "levels s = []")
  case True
  then show ?thesis using assms integrate_empty[OF True, of c Niter] by (cases fm) auto
next
  case False
  from integrate_InlD[OF assms False] show ?thesis
    using False by (auto simp add: too_cold_def)
qed

lemma fail_profile_at:
  assumes "1 \<le> k" "k < length (levels s)"
  shows "pm (fail_profile qf c s rs n k i) ! k = fst (ref_iter qf c s rs n k (Suc i))"
    and "rho (fail_profile qf c s rs n k i) ! k = snd (ref_iter qf c s rs n k i)"
    and "rho (fail_profile qf c s rs n k 0) ! k = rho (fail_profile qf c s rs n k 0) ! (k - 1)"
    and "p (fail_profile qf c s rs n k i) = replicate (length (levels s)) 0"
  using assms
  by (simp_all add: fail_profile_def Let_def ref_profile_length ref_profile_nth ref_iter_def)
     (simp_all add: ref_profile_def)

lemma fail_profile_above:
  assumes "k \<le> j" "j < length (levels s)"
  shows "thm' (fail_profile qf c s rs n k i) ! j = 0"
    and "k < j \<Longrightarrow> pm (fail_profile qf c s rs n k i) ! j = 0"
    and "k < j \<Longrightarrow> rho (fail_profile qf c s rs n k i) ! j = 0"
  using assms by (simp_all add: fail_profile_def Let_def ref_profile_nth)

lemma unsorted_rho_surf:
  "rho_surf_of example_constants unsorted_sounding LEGACY = 100000 / (287 * 300 * 1.01608)"
  by (simp add: rho_surf_of_def eos_def qvf_wrf_def unsorted_sounding_def example_constants_def)

lemma unsorted_level0:
  "0 < fst (ref_level (qvf_for example_constants LEGACY) example_constants unsorted_sounding
          (rho_surf_of example_constants unsorted_sounding LEGACY) (Suc 0) 0)"
  "0 \<le> snd (ref_level (qvf_for example_constants LEGACY) example_constants unsorted_sounding
          (rho_surf_of example_constants unsorted_sounding LEGACY) (Suc 0) 0)"
proof -
  show "0 < fst (ref_level (qvf_for example_constants LEGACY) example_constants unsorted_sounding
          (rho_surf_of example_constants unsorted_sounding LEGACY) (Suc 0) 0)"
    unfolding ref_level0_one unsorted_rho_surf
    by (simp add: unsorted_sounding_def example_constants_def)
  have "0 \<le> eos example_constants (th (levels unsorted_sounding ! 0))
           (qvf_for example_constants LEGACY (qv (levels unsorted_sounding ! 0))) P" for P
    by (rule eos_nonneg)
       (simp_all add: example_constants_def unsorted_sounding_def qvf_for_def qvf_wrf_def)
  then show "0 \<le> snd (ref_level (qvf_for example_constants LEGACY) example_constants unsorted_sounding
          (rho_surf_of example_constants unsorted_sounding LEGACY) (Suc 0) 0)"
    unfolding ref_level0_one by simp
qed

lemma unsorted_iter1:
  "0 < fst (ref_iter (qvf_for example_constants LEGACY) example_constants unsorted_sounding
          (rho_surf_of example_constants unsorted_sounding LEGACY) (Suc 0) (Suc 0) (Suc 0))"
proof -
  define L where "L = ref_level (qvf_for example_constants LEGACY) example_constants unsorted_sounding
          (rho_surf_of example_constants unsorted_sounding LEGACY) (Suc 0) 0"
  have L: "0 < fst L" "0 \<le> snd L" unfolding L_def by (rule unsorted_level0)+
  have "fst (ref_iter (qvf_for example_constants LEGACY) example_constants unsorted_sounding
          (rho_surf_of example_constants unsorted_sounding LEGACY) (Suc 0) (Suc 0) (Suc 0))
        = fst L - 0.5 * (500 - 1000) * (snd L + snd L) * 9.81 * (0.5 * (2 + (0.01 + 0.008)))"
    unfolding ref_iter_first
    by (simp add: L_def dz_at_def qvf1_at_def del: ref_level.simps)
       (simp add: unsorted_sounding_def example_constants_def del: ref_level.simps)
  also have "\<dots> = fst L + 500 * 9.81 * 1.009 * snd L" by simp
  finally show ?thesis using L by simp
qed

lemma unsorted_succeeds:
  "\<exists>s'. integrate example_constants unsorted_sounding LEGACY 1 = Inr s'"
proof -
  have ne: "levels unsorted_sounding \<noteq> []" by (simp add: unsorted_sounding_def)
  have len: "length (levels unsorted_sounding) = 2" by (simp add: unsorted_sounding_def)
  have "positive_below (qvf_for example_constants LEGACY) example_constants unsorted_sounding
          (rho_surf_of example_constants unsorted_sounding LEGACY) (Suc 0) 2"
    unfolding positive_below_def
  proof (intro allI impI)
    fix k i :: nat
    assume "1 \<le> k \<and> k < 2" and "i < Suc 0"
    then have "k = Suc 0" "i = 0" by simp_all
    then show "0 < fst (ref_iter (qvf_for example_constants LEGACY) example_constants unsorted_sounding
          (rho_surf_of example_constants unsorted_sounding LEGACY) (Suc 0) k (Suc i))"
      using unsorted_iter1 by simp
  qed
  then show ?thesis
    using integrate_success[OF ne, of example_constants LEGACY 1] by (simp add: len)
qed

lemma ref_level_Suc_one:
  "ref_level qf c s rs (Suc 0) (Suc k) =
     (fst (ref_iter qf c s rs (Suc 0) (Suc k) (Suc 0)),
      eos c (th (levels s ! Suc k)) (qf (qv (levels s ! Suc k)))
        (fst (ref_iter qf c s rs (Suc 0) (Suc k) (Suc 0))))"
  by (simp add: ref_iter_def level_step_def relax_step_def Let_def)

lemma thin_rho_surf: "rho_surf_of example_constants thin_sounding fm = 100000 / 86100"
  by (cases fm)
     (simp_all add: rho_surf_of_def eos_def qvf_wrf_def qvf_vpt_def thin_sounding_def example_constants_def)

lemma thin_level0:
  "ref_level (qvf_for example_constants fm) example_constants thin_sounding
          (rho_surf_of example_constants thin_sounding fm) (Suc 0) 0 = (100000, 100000 / 86100)"
  unfolding ref_level0_one thin_rho_surf
  by (simp add: thin_sounding_def qvf_for_zero) (simp add: eos_def example_constants_def)

lemma thin_iter1:
  "fst (ref_iter (qvf_for example_constants fm) example_constants thin_sounding
          (rho_surf_of example_constants thin_sounding fm) (Suc 0) (Suc 0) (Suc 0))
     = 100000 - 9810000 / 861"
  unfolding ref_iter_first
  by (simp add: thin_level0 dz_at_def qvf1_at_def del: ref_level.simps)
     (simp add: thin_sounding_def example_constants_def)

lemma thin_level1:
  "fst (ref_level (qvf_for example_constants fm) example_constants thin_sounding
          (rho_surf_of example_constants thin_sounding fm) (Suc 0) (Suc 0)) = 100000 - 9810000 / 861"
  "(100000 - 9810000 / 861) / 86100
     \<le> snd (ref_level (qvf_for example_constants fm) example_constants thin_sounding
          (rho_surf_of example_constants thin_sounding fm) (Suc 0) (Suc 0))"
proof -
  show "fst (ref_level (qvf_for example_constants fm) example_constants thin_sounding
          (rho_surf_of example_constants thin_sounding fm) (Suc 0) (Suc 0)) = 100000 - 9810000 / 861"
    unfolding ref_level_Suc_one thin_iter1 by simp
  have "((100000 - 9810000 / 861) / p0 example_constants)
          * (p0 example_constants / (R_d example_constants * 300 * 1))
        \<le> eos example_constants 300 1 (100000 - 9810000 / 861)"
    by (rule eos_bounds(1)) (simp_all add: example_constants_def)
  then have "(100000 - 9810000 / 861) / 86100 \<le> eos example_constants 300 1 (100000 - 9810000 / 861)"
    by (simp add: example_constants_def)
  then show "(100000 - 9810000 / 861) / 86100
     \<le> snd (ref_level (qvf_for example_constants fm) example_constants thin_sounding
          (rho_surf_of example_constants thin_sounding fm) (Suc 0) (Suc 0))"
    unfolding ref_level_Suc_one thin_iter1
    by (simp add: thin_sounding_def qvf_for_zero)
qed

lemma thin_iter2:
  "\<not> 0 < fst (ref_iter (qvf_for example_constants fm) example_constants thin_sounding
          (rho_surf_of example_constants thin_sounding fm) (Suc 0) 2 (Suc 0))"
proof -
  define r where "r = snd (ref_level (qvf_for example_constants fm) example_constants thin_sounding
          (rho_surf_of example_constants thin_sounding fm) (Suc 0) (Suc 0))"
  have r: "(100000 - 9810000 / 861) / 86100 \<le> r" unfolding r_def by (rule thin_level1)
  have "fst (ref_iter (qvf_for example_constants fm) example_constants thin_sounding
          (rho_surf_of example_constants thin_sounding fm) (Suc 0) 2 (Suc 0))
        = (100000 - 9810000 / 861) - 0.5 * (100000 - 1000) * (r + r) * 9.81 * 1"
    unfolding ref_iter_first
    by (simp add: thin_level1 r_def dz_at_def qvf1_at_def del: ref_level.simps)
       (simp add: thin_sounding_def example_constants_def del: ref_level.simps)
  also have "\<dots> = (100000 - 9810000 / 861) - 971190 * r" by simp
  finally show ?thesis using r by simp
qed

lemma thin_fails:
  "integrate example_constants thin_sounding fm 1 =
     Inl (too_cold 2 (fail_profile (qvf_for example_constants fm) example_constants thin_sounding
            (rho_surf_of example_constants thin_sounding fm) (Suc 0) 2 0))"
proof -
  have len: "2 < length (levels thin_sounding)" by (simp add: thin_sounding_def)
  have pb: "positive_below (qvf_for example_constants fm) example_constants thin_sounding
          (rho_surf_of example_constants thin_sounding fm) (Suc 0) 2"
    unfolding positive_below_def
  proof (intro allI impI)
    fix k i :: nat
    assume "1 \<le> k \<and> k < 2" and "i < Suc 0"
    then have "k = Suc 0" "i = 0" by simp_all
    then show "0 < fst (ref_iter (qvf_for example_constants fm) example_constants thin_sounding
          (rho_surf_of example_constants thin_sounding fm) (Suc 0) k (Suc i))"
      by (simp add: thin_iter1)
  qed
  show ?thesis
    using integrate_failure[of 2 thin_sounding example_constants fm 1 0] len pb thin_iter2[of fm]
    by simp
qed

lemma eos_factor:
  assumes "0 < R_d c" "0 < p0 c" "0 < P"
  shows "0 < (R_d c / p0 c) * (P / p0 c) powr cvpm c"
    and "eos c thv qvf P = 1 / ((R_d c / p0 c) * (P / p0 c) powr cvpm c * (thv * qvf))"
proof -
  have x: "0 < (P / p0 c) powr cvpm c" using assms by simp
  have A: "0 < R_d c / p0 c" using assms by simp
  show "0 < (R_d c / p0 c) * (P / p0 c) powr cvpm c" by (rule mult_pos_pos[OF A x])
  show "eos c thv qvf P = 1 / ((R_d c / p0 c) * (P / p0 c) powr cvpm c * (thv * qvf))"
    unfolding eos_def by (simp only: mult_ac)
qed

lemma eos_pos_iff:
  assumes "0 < R_d c" "0 < p0 c" "0 < P"
  shows "0 < eos c thv qvf P \<longleftrightarrow> 0 < thv * qvf"
proof -
  define B where "B = (R_d c / p0 c) * (P / p0 c) powr cvpm c"
  have B: "0 < B" unfolding B_def by (rule eos_factor(1)[OF assms])
  have e: "eos c thv qvf P = 1 / (B * (thv * qvf))"
    unfolding B_def by (rule eos_factor(2)[OF assms])
  show ?thesis unfolding e using B by (simp add: zero_less_mult_iff)
qed

lemma eos_nonneg_product:
  assumes "0 \<le> R_d c" "0 \<le> p0 c" "0 \<le> thv * qvf"
  shows "0 \<le> eos c thv qvf P"
proof -
  define D where "D = (R_d c / p0 c) * (P / p0 c) powr cvpm c * (thv * qvf)"
  have B: "0 \<le> (R_d c / p0 c) * (P / p0 c) powr cvpm c"
    using assms by simp
  have D: "0 \<le> D"
    unfolding D_def by (rule mult_nonneg_nonneg[OF B assms(3)])
  have "eos c thv qvf P = 1 / D"
    unfolding eos_def D_def by (simp only: mult_ac)
  then show ?thesis using D by simp
qed

lemma eos_antimono:
  assumes c: "0 < R_d c" "0 < p0 c" "cvpm c \<le> 0"
    and T: "0 < th1 * qf1" "th1 * qf1 \<le> th2 * qf2"
    and P: "0 < P2" "P2 \<le> P1"
  shows "eos c th2 qf2 P2 \<le> eos c th1 qf1 P1"
proof -
  define B1 where "B1 = (R_d c / p0 c) * (P1 / p0 c) powr cvpm c"
  define B2 where "B2 = (R_d c / p0 c) * (P2 / p0 c) powr cvpm c"
  have P1: "0 < P1" using P by simp
  have B1: "0 < B1" unfolding B1_def by (rule eos_factor(1)[OF c(1,2) P1])
  have "(P1 / p0 c) powr cvpm c \<le> (P2 / p0 c) powr cvpm c"
    by (rule powr_mono2') (use c P in \<open>simp_all add: divide_right_mono\<close>)
  then have B12: "B1 \<le> B2"
    unfolding B1_def B2_def using c by (intro mult_left_mono) simp_all
  have e1: "eos c th1 qf1 P1 = 1 / (B1 * (th1 * qf1))"
    unfolding B1_def by (rule eos_factor(2)[OF c(1,2) P1])
  have e2: "eos c th2 qf2 P2 = 1 / (B2 * (th2 * qf2))"
    unfolding B2_def by (rule eos_factor(2)[OF c(1,2) P(1)])
  have "B1 * (th1 * qf1) \<le> B2 * (th2 * qf2)"
    by (rule mult_mono) (use B1 B12 T in simp_all)
  moreover have "0 < B1 * (th1 * qf1)" using B1 T by simp
  ultimately show ?thesis unfolding e1 e2 by (intro frac_le) simp_all
qed

lemma ref_level_eos:
  assumes "0 < n"
  shows "snd (ref_level qf c s rs n j) =
           eos c (th (levels s ! j)) (qf (qv (levels s ! j))) (fst (ref_level qf c s rs n j))"
proof -
  obtain m where m: "n = Suc m" using assms by (cases n) simp_all
  show ?thesis
    by (cases j) (simp_all add: m surface_step_def level_step_def relax_step_eos)
qed

lemma ref_level_last_step:
  assumes "n = Suc m"
  shows "fst (ref_level qf c s rs n (Suc k)) =
           fst (ref_level qf c s rs n k)
             - 0.5 * dz_at s (Suc k) * (snd (ref_iter qf c s rs n (Suc k) m) + snd (ref_level qf c s rs n k))
                 * g c * qvf1_at s (Suc k)"
  unfolding ref_level_Suc_iter assms
  by (simp add: ref_iter_def level_step_def relax_step_def Let_def)

lemma ref_iter_eos:
  "snd (ref_iter qf c s rs n k (Suc i)) =
     eos c (th (levels s ! k)) (qf (qv (levels s ! k))) (fst (ref_iter qf c s rs n k (Suc i)))"
  by (simp add: ref_iter_def level_step_def relax_step_eos)

lemma ref_iter_zero: "snd (ref_iter qf c s rs n k 0) = snd (ref_level qf c s rs n (k - 1))"
  by (simp add: ref_iter_def)

lemma example_level0_value:
  "ref_level (qvf_for example_constants LEGACY) example_constants example_sounding
     (rho_surf_of example_constants example_sounding LEGACY) (Suc 0) 0
   = (100000, 100000 / (287 * 300 * 1.01608))"
  unfolding ref_level0_one
  by (simp add: example_sounding_def qvf_for_def qvf_wrf_def)
     (simp add: eos_def example_constants_def)

lemma example_level1_value:
  "0 < fst (ref_level (qvf_for example_constants LEGACY) example_constants example_sounding
     (rho_surf_of example_constants example_sounding LEGACY) (Suc 0) (Suc 0))"
  "0 < snd (ref_level (qvf_for example_constants LEGACY) example_constants example_sounding
     (rho_surf_of example_constants example_sounding LEGACY) (Suc 0) (Suc 0))"
proof -
  define P where "P = fst (ref_iter (qvf_for example_constants LEGACY) example_constants example_sounding
              (rho_surf_of example_constants example_sounding LEGACY) (Suc 0) (Suc 0) (Suc 0))"
  have P: "0 < P" unfolding P_def by (rule example_iter1)
  show "0 < fst (ref_level (qvf_for example_constants LEGACY) example_constants example_sounding
     (rho_surf_of example_constants example_sounding LEGACY) (Suc 0) (Suc 0))"
    unfolding ref_level_Suc_one using P by (simp add: P_def)
  have c: "0 < R_d example_constants" "0 < p0 example_constants"
    by (simp_all add: example_constants_def)
  have t: "th (levels example_sounding ! Suc 0) = 302" "qv (levels example_sounding ! Suc 0) = 0.008"
    by (simp_all add: example_sounding_def)
  have "0 < eos example_constants 302 (qvf_for example_constants LEGACY 0.008) P"
    unfolding eos_pos_iff[OF c P]
    by (simp add: qvf_for_def qvf_wrf_def example_constants_def)
  then show "0 < snd (ref_level (qvf_for example_constants LEGACY) example_constants example_sounding
     (rho_surf_of example_constants example_sounding LEGACY) (Suc 0) (Suc 0))"
    unfolding ref_level_Suc_one t P_def[symmetric] by simp
qed

lemma drying_level0:
  "ref_level (qvf_for example_constants LEGACY) example_constants drying_sounding
     (rho_surf_of example_constants drying_sounding LEGACY) (Suc 0) 0
   = (100000, 100000 / (287 * 300 * 1.01608))"
  unfolding ref_level0_one
  by (simp add: drying_sounding_def qvf_for_def qvf_wrf_def)
     (simp add: eos_def example_constants_def)

lemma drying_iter1:
  "fst (ref_iter (qvf_for example_constants LEGACY) example_constants drying_sounding
     (rho_surf_of example_constants drying_sounding LEGACY) (Suc 0) (Suc 0) (Suc 0))
   = 100000 - 100 * (100000 / (287 * 300 * 1.01608)) * 9.81 * 1.005"
  unfolding ref_iter_first
  by (simp add: drying_level0 dz_at_def qvf1_at_def del: ref_level.simps)
     (simp add: drying_sounding_def example_constants_def)

lemma drying_level1:
  "100000 / (287 * 300 * 1.01608)
     < snd (ref_level (qvf_for example_constants LEGACY) example_constants drying_sounding
         (rho_surf_of example_constants drying_sounding LEGACY) (Suc 0) (Suc 0))"
proof -
  define P :: real where "P = 100000 - 100 * (100000 / (287 * 300 * 1.01608)) * 9.81 * 1.005"
  have P: "0 < P" "P \<le> 100000" by (simp_all add: P_def)
  have "(P / p0 example_constants) * (p0 example_constants / (R_d example_constants * 301 * 1))
          \<le> eos example_constants 301 1 P"
    by (rule eos_bounds(1)) (use P in \<open>simp_all add: example_constants_def\<close>)
  moreover have "100000 / (287 * 300 * 1.01608)
      < (P / p0 example_constants) * (p0 example_constants / (R_d example_constants * 301 * 1))"
    by (simp add: P_def example_constants_def)
  ultimately have "100000 / (287 * 300 * 1.01608) < eos example_constants 301 1 P" by simp
  then show ?thesis
    unfolding ref_level_Suc_one drying_iter1 P_def[symmetric]
    by (simp add: drying_sounding_def qvf_for_zero)
qed

lemma drying_succeeds:
  "integrate example_constants drying_sounding LEGACY 1 =
     Inr (drying_sounding\<lparr>derived := Some (stage3 example_constants drying_sounding
       (ref_profile (qvf_for example_constants LEGACY) example_constants drying_sounding
          (rho_surf_of example_constants drying_sounding LEGACY) (Suc 0) 2))\<rparr>)"
proof -
  have ne: "levels drying_sounding \<noteq> []" by (simp add: drying_sounding_def)
  have len: "length (levels drying_sounding) = 2" by (simp add: drying_sounding_def)
  have "positive_below (qvf_for example_constants LEGACY) example_constants drying_sounding
          (rho_surf_of example_constants drying_sounding LEGACY) (Suc 0) 2"
    unfolding positive_below_def
  proof (intro allI impI)
    fix k i :: nat
    assume "1 \<le> k \<and> k < 2" and "i < Suc 0"
    then have "k = Suc 0" "i = 0" by simp_all
    then show "0 < fst (ref_iter (qvf_for example_constants LEGACY) example_constants drying_sounding
          (rho_surf_of example_constants drying_sounding LEGACY) (Suc 0) k (Suc i))"
      by (simp add: drying_iter1)
  qed
  then show ?thesis
    using integrate_success[OF ne, of example_constants LEGACY 1] by (simp add: len)
qed

section \<open>The claims\<close>

subsection \<open>C1\<close>

text \<open>
  C1, as the code has it. On every input on which the integration returns, for each level
  \<open>k\<close> from 1 to \<open>N-1\<close>: with \<open>dz = z[k] - z[k-1]\<close>, \<open>qvf1 = 0.5 * (2 + (qv[k-1] + qv[k]))\<close> and
  \<open>qvf\<close> of the formulation at \<open>qv[k]\<close>, the final \<open>pm[k]\<close> and \<open>rho[k]\<close> are the result of exactly
  \<open>Niter\<close> repetitions of the step \<open>relax_step\<close> (the pressure from the finished \<open>pm[k-1]\<close>,
  \<open>rho[k-1]\<close> and the current \<open>rho[k]\<close>, then the density from the equation of state), started
  from \<open>rho[k] = rho[k-1]\<close>, and \<open>thm[k] = th[k] * qvf\<close>.
\<close>

theorem stage2_recurrence:
  assumes "integrate c s fm Niter = Inr s'" and "derived s' = Some pr"
    and "1 \<le> k" and "k < length (levels s)"
  shows "(pm pr ! k, rho pr ! k) =
           (relax_step c (th (levels s ! k)) (qvf_for c fm (qv (levels s ! k)))
              (0.5 * (2 + (qv (levels s ! (k - 1)) + qv (levels s ! k))))
              (z (levels s ! k) - z (levels s ! (k - 1)))
              (pm pr ! (k - 1)) (rho pr ! (k - 1)) ^^ nat Niter) (0, rho pr ! (k - 1))
       \<and> thm' pr ! k = th (levels s ! k) * qvf_for c fm (qv (levels s ! k))"
proof -
  define qf where "qf = qvf_for c fm"
  define rs where "rs = rho_surf_of c s fm"
  define n where "n = nat Niter"
  define N where "N = length (levels s)"
  have "s' = s\<lparr>derived := Some (stage3 c s (ref_profile qf c s rs n N))\<rparr>"
    using integrate_InrD(3)[OF assms(1)] by (simp add: qf_def rs_def n_def N_def)
  then have pr: "pr = stage3 c s (ref_profile qf c s rs n N)" using assms(2) by simp
  have k: "k < N" "k - 1 < N" "k - 1 < k" using assms(3,4) by (simp_all add: N_def)
  have a: "pm pr ! k = fst (ref_level qf c s rs n k)" "rho pr ! k = snd (ref_level qf c s rs n k)"
    "thm' pr ! k = th (levels s ! k) * qf (qv (levels s ! k))"
    using k by (simp_all add: pr stage3_frame ref_profile_nth N_def)
  have b: "pm pr ! (k - 1) = fst (ref_level qf c s rs n (k - 1))"
    "rho pr ! (k - 1) = snd (ref_level qf c s rs n (k - 1))"
    using k by (simp_all add: pr stage3_frame ref_profile_nth N_def)
  have "ref_level qf c s rs n k = ref_iter qf c s rs n k n"
    using ref_level_Suc_iter[of qf c s rs n "k - 1"] assms(3) by simp
  then have "(pm pr ! k, rho pr ! k) = ref_iter qf c s rs n k n"
    using a by simp
  then show ?thesis
    unfolding ref_iter_def level_step_def qvf1_at_def dz_at_def b[symmetric]
    using a(3) by (simp add: qf_def n_def)
qed

theorem stage2_recurrence_witness:
  "\<exists>s' pr. integrate example_constants example_sounding LEGACY 1 = Inr s' \<and> derived s' = Some pr
     \<and> pm pr ! 1 = pm pr ! 0 - 0.5 * 1000 * (rho pr ! 0 + rho pr ! 0) * 9.81 * 1.009
     \<and> thm' pr ! 1 = 302 * (1 + 1.608 * 0.008)"
proof -
  obtain s' where s': "integrate example_constants example_sounding LEGACY 1 = Inr s'"
    using example_succeeds by blast
  then obtain pr where pr: "derived s' = Some pr"
    using example_succeeds[of LEGACY] by auto
  have k: "(1::nat) \<le> 1" "1 < length (levels example_sounding)" by (simp_all add: example_sounding_def)
  have "pm pr ! 1 = pm pr ! 0 - 0.5 * 1000 * (rho pr ! 0 + rho pr ! 0) * 9.81 * 1.009
     \<and> thm' pr ! 1 = 302 * (1 + 1.608 * 0.008)"
    using stage2_recurrence[OF s' pr k]
    by (simp add: relax_step_def Let_def prod_eq_iff qvf_for_def qvf_wrf_def
          example_sounding_def example_constants_def)
  then show ?thesis using s' pr by blast
qed

text \<open>
  C1 as stated, for every input with at least two levels, fails where the assertion of
  the inner loop stops the routine: on the cold sounding the first iteration at level 1
  raises, and \<open>thm[1]\<close> is never assigned.
\<close>

theorem stage2_stops_at_assertion:
  "fst (outcome (integrate example_constants cold_sounding LEGACY 1))
      = Some (AssertionError ''too cold for chosen height'')
   \<and> thm' (the (snd (outcome (integrate example_constants cold_sounding LEGACY 1)))) ! 1 = 0
   \<and> th (levels cold_sounding ! 1) * qvf_for example_constants LEGACY (qv (levels cold_sounding ! 1)) = 50"
proof -
  define pr where "pr = fail_profile (qvf_for example_constants LEGACY) example_constants
       cold_sounding (rho_surf_of example_constants cold_sounding LEGACY) (Suc 0) 1 0"
  have r: "integrate example_constants cold_sounding LEGACY 1 = Inl (too_cold 1 pr)"
    unfolding pr_def by (rule cold_fails)
  have len: "1 < length (levels cold_sounding)" by (simp add: cold_sounding_def)
  have t: "thm' pr ! 1 = 0"
    unfolding pr_def using fail_profile_above(1)[of 1 1 cold_sounding] len by simp
  have o: "outcome (integrate example_constants cold_sounding LEGACY 1)
      = (Some (AssertionError ''too cold for chosen height''), Some pr)"
    unfolding r by (simp add: outcome_def too_cold_def)
  have q: "th (levels cold_sounding ! 1) * qvf_for example_constants LEGACY (qv (levels cold_sounding ! 1)) = 50"
    by (simp add: cold_sounding_def qvf_for_zero)
  show ?thesis unfolding o using t q by simp
qed

subsection \<open>C2\<close>

text \<open>
  C2, as the code has it. On a non-empty table the routine fails exactly when some
  iteration of stage 2 produces a pressure that is not above zero. It then stops at the
  first such level and iteration: every earlier iterate was positive, the offending value is
  the one left in \<open>pm[k]\<close> (no clamp, no earlier value put back), and the exception is
  \<open>AssertionError\<close> with the fixed message \<^verbatim>\<open>too cold for chosen height\<close>, which carries neither
  the level nor a pressure. If every iterate is positive, no failure is raised.
\<close>

theorem assertion_on_nonpositive_pressure:
  assumes "levels s \<noteq> []"
  shows "((\<exists>f. integrate c s fm Niter = Inl f) \<longleftrightarrow>
            \<not> positive_below (qvf_for c fm) c s (rho_surf_of c s fm) (nat Niter) (length (levels s)))
       \<and> (\<forall>f. integrate c s fm Niter = Inl f \<longrightarrow>
             exc f = AssertionError ''too cold for chosen height''
           \<and> 1 \<le> at_level f \<and> at_level f < length (levels s)
           \<and> positive_below (qvf_for c fm) c s (rho_surf_of c s fm) (nat Niter) (at_level f)
           \<and> (\<exists>i<nat Niter.
                 (\<forall>j<i. 0 < fst (ref_iter (qvf_for c fm) c s (rho_surf_of c s fm) (nat Niter) (at_level f) (Suc j)))
               \<and> fst (ref_iter (qvf_for c fm) c s (rho_surf_of c s fm) (nat Niter) (at_level f) (Suc i)) \<le> 0
               \<and> (\<exists>pr. obj f = Some pr
                     \<and> pm pr ! at_level f =
                         fst (ref_iter (qvf_for c fm) c s (rho_surf_of c s fm) (nat Niter) (at_level f) (Suc i)))))"
proof (intro conjI allI impI iffI)
  assume "\<exists>f. integrate c s fm Niter = Inl f"
  then show "\<not> positive_below (qvf_for c fm) c s (rho_surf_of c s fm) (nat Niter) (length (levels s))"
    using integrate_success[OF assms, of c fm Niter] by auto
next
  assume "\<not> positive_below (qvf_for c fm) c s (rho_surf_of c s fm) (nat Niter) (length (levels s))"
  then show "\<exists>f. integrate c s fm Niter = Inl f"
    using integrate_InrD(2)[of c s fm Niter] by (cases "integrate c s fm Niter") auto
next
  fix f assume f: "integrate c s fm Niter = Inl f"
  define qf where "qf = qvf_for c fm"
  define rs where "rs = rho_surf_of c s fm"
  define n where "n = nat Niter"
  from integrate_InlD[OF f assms] obtain k i where ki:
    "1 \<le> k" "k < length (levels s)" "i < n" "positive_below qf c s rs n k"
    "\<forall>j<i. 0 < fst (ref_iter qf c s rs n k (Suc j))"
    "\<not> 0 < fst (ref_iter qf c s rs n k (Suc i))"
    "f = too_cold k (fail_profile qf c s rs n k i)"
    unfolding qf_def rs_def n_def by blast
  have at: "at_level f = k" by (simp add: ki(7) too_cold_def)
  show "exc f = AssertionError ''too cold for chosen height''" by (simp add: ki(7) too_cold_def)
  show "1 \<le> at_level f" "at_level f < length (levels s)" using ki(1,2) at by simp_all
  show "positive_below (qvf_for c fm) c s (rho_surf_of c s fm) (nat Niter) (at_level f)"
    using ki(4) at by (simp add: qf_def rs_def n_def)
  have "obj f = Some (fail_profile qf c s rs n k i)" by (simp add: ki(7) too_cold_def)
  moreover have "pm (fail_profile qf c s rs n k i) ! k = fst (ref_iter qf c s rs n k (Suc i))"
    by (rule fail_profile_at(1)[OF ki(1,2)])
  ultimately show "\<exists>i<nat Niter.
                 (\<forall>j<i. 0 < fst (ref_iter (qvf_for c fm) c s (rho_surf_of c s fm) (nat Niter) (at_level f) (Suc j)))
               \<and> fst (ref_iter (qvf_for c fm) c s (rho_surf_of c s fm) (nat Niter) (at_level f) (Suc i)) \<le> 0
               \<and> (\<exists>pr. obj f = Some pr
                     \<and> pm pr ! at_level f =
                         fst (ref_iter (qvf_for c fm) c s (rho_surf_of c s fm) (nat Niter) (at_level f) (Suc i)))"
    using ki(3,5,6) at unfolding qf_def rs_def n_def
    by (intro exI[of _ i]) auto
qed

theorem assertion_on_nonpositive_pressure_witness:
  "levels cold_sounding \<noteq> []
   \<and> (\<exists>f. integrate example_constants cold_sounding VIRTUAL_POTENTIAL_TEMPERATURE 1 = Inl f
         \<and> exc f = AssertionError ''too cold for chosen height'' \<and> at_level f = 1)"
proof -
  have ne: "levels cold_sounding \<noteq> []" by (simp add: cold_sounding_def)
  have len: "length (levels cold_sounding) = 2" by (simp add: cold_sounding_def)
  obtain f where f: "integrate example_constants cold_sounding VIRTUAL_POTENTIAL_TEMPERATURE 1 = Inl f"
    using cold_fails by blast
  from assertion_on_nonpositive_pressure[OF ne, of example_constants VIRTUAL_POTENTIAL_TEMPERATURE 1] f
  have "exc f = AssertionError ''too cold for chosen height''" "1 \<le> at_level f"
    "at_level f < length (levels cold_sounding)"
    by blast+
  then show ?thesis using ne f len by auto
qed

text \<open>
  C2 as stated has the error report the failing level: the two soundings below fail at
  level 1 and at level 2 with the same exception.
\<close>

theorem assertion_message_is_fixed:
  "isl (integrate example_constants cold_sounding LEGACY 1)
   \<and> isl (integrate example_constants thin_sounding LEGACY 1)
   \<and> exc (projl (integrate example_constants cold_sounding LEGACY 1))
       = exc (projl (integrate example_constants thin_sounding LEGACY 1))
   \<and> at_level (projl (integrate example_constants cold_sounding LEGACY 1)) = 1
   \<and> at_level (projl (integrate example_constants thin_sounding LEGACY 1)) = 2"
  unfolding cold_fails thin_fails by (simp add: too_cold_def)

subsection \<open>C3\<close>

text \<open>
  C3, as the code has it. \<^verbatim>\<open>integrate_column_wrf\<close> never reads \<^verbatim>\<open>qv_surf\<close>: two runs that
  differ only in \<^verbatim>\<open>qv_surf\<close> raise the same exception or leave the same four arrays.
\<close>

theorem legacy_ignores_qv_surf:
  "outcome (integrate c (s\<lparr>qv_surf := a\<rparr>) LEGACY Niter) = outcome (integrate c (s\<lparr>qv_surf := b\<rparr>) LEGACY Niter)"
  unfolding integrate.simps by (rule integrate_column_wrf_cong) simp_all

text \<open>
  C3 as stated fails for \<^verbatim>\<open>integrate_column\<close>, which computes \<open>rho_surf\<close> with
  \<open>qvf = 1 + (rvovrd - 1) * qv_surf\<close> (line 108): with one iteration the two runs below
  leave different values of \<open>pm[0]\<close>.
\<close>

theorem vpt_reads_qv_surf:
  "outcome (integrate example_constants (raised_sounding\<lparr>qv_surf := 0\<rparr>) VIRTUAL_POTENTIAL_TEMPERATURE 1)
     \<noteq> outcome (integrate example_constants raised_sounding VIRTUAL_POTENTIAL_TEMPERATURE 1)"
proof
  assume eq: "outcome (integrate example_constants (raised_sounding\<lparr>qv_surf := 0\<rparr>) VIRTUAL_POTENTIAL_TEMPERATURE 1)
     = outcome (integrate example_constants raised_sounding VIRTUAL_POTENTIAL_TEMPERATURE 1)"
  have ne: "levels (raised_sounding\<lparr>qv_surf := 0\<rparr>) \<noteq> []" "levels raised_sounding \<noteq> []"
    by (simp_all add: raised_sounding_def)
  obtain pr1 where pr1: "snd (outcome (integrate example_constants (raised_sounding\<lparr>qv_surf := 0\<rparr>)
        VIRTUAL_POTENTIAL_TEMPERATURE 1)) = Some pr1"
     "pm pr1 ! 0 = fst (ref_level (qvf_for example_constants VIRTUAL_POTENTIAL_TEMPERATURE) example_constants
               (raised_sounding\<lparr>qv_surf := 0\<rparr>)
               (rho_surf_of example_constants (raised_sounding\<lparr>qv_surf := 0\<rparr>) VIRTUAL_POTENTIAL_TEMPERATURE) (Suc 0) 0)"
    using level0_always[OF ne(1), of example_constants VIRTUAL_POTENTIAL_TEMPERATURE 1] by auto
  obtain pr2 where pr2: "snd (outcome (integrate example_constants raised_sounding
        VIRTUAL_POTENTIAL_TEMPERATURE 1)) = Some pr2"
     "pm pr2 ! 0 = fst (ref_level (qvf_for example_constants VIRTUAL_POTENTIAL_TEMPERATURE) example_constants
               raised_sounding
               (rho_surf_of example_constants raised_sounding VIRTUAL_POTENTIAL_TEMPERATURE) (Suc 0) 0)"
    using level0_always[OF ne(2), of example_constants VIRTUAL_POTENTIAL_TEMPERATURE 1] by auto
  have "pr1 = pr2" using pr1(1) pr2(1) eq by simp
  then have "fst (ref_level (qvf_for example_constants VIRTUAL_POTENTIAL_TEMPERATURE) example_constants
               (raised_sounding\<lparr>qv_surf := 0\<rparr>)
               (rho_surf_of example_constants (raised_sounding\<lparr>qv_surf := 0\<rparr>) VIRTUAL_POTENTIAL_TEMPERATURE) (Suc 0) 0)
      = fst (ref_level (qvf_for example_constants VIRTUAL_POTENTIAL_TEMPERATURE) example_constants
               raised_sounding
               (rho_surf_of example_constants raised_sounding VIRTUAL_POTENTIAL_TEMPERATURE) (Suc 0) 0)"
    using pr1(2) pr2(2) by simp
  then show False
    unfolding level0_one_iteration
    by (simp add: rho_surf_of_def eos_def qvf_vpt_def raised_sounding_def example_constants_def)
qed

subsection \<open>C4\<close>

text \<open>
  C4, as the code has it. On a table with at least one level, if the mixing ratio is zero
  at every level and at the surface as well, the two routines return the same result.
\<close>

theorem dry_formulations_agree:
  assumes "levels s \<noteq> []" and "\<forall>l\<in>set (levels s). qv l = 0" and "qv_surf s = 0"
  shows "integrate c s LEGACY Niter = integrate c s VIRTUAL_POTENTIAL_TEMPERATURE Niter"
proof -
  have q0: "qv (levels s ! 0) = 0" using assms(1,2) by (simp add: nth_mem)
  have "\<forall>k\<in>set [Suc 0..<length (levels s)]. qvf_wrf c (qv (levels s ! k)) = qvf_vpt c (qv (levels s ! k))"
    using assms(2) by (simp add: qvf_wrf_def qvf_vpt_def)
  from column_loop_qvf_cong[OF this]
  have col: "\<And>n pr. column_loop (qvf_wrf c) c s n [Suc 0..<length (levels s)] pr
       = column_loop (qvf_vpt c) c s n [Suc 0..<length (levels s)] pr" .
  show ?thesis
    using assms(1,3)
    by (simp add: integrate_column_wrf_def integrate_column_def Let_def q0 col)
qed

theorem dry_formulations_agree_witness:
  "levels (dry_sounding\<lparr>qv_surf := 0\<rparr>) \<noteq> []
   \<and> integrate example_constants (dry_sounding\<lparr>qv_surf := 0\<rparr>) LEGACY 10 =
       integrate example_constants (dry_sounding\<lparr>qv_surf := 0\<rparr>) VIRTUAL_POTENTIAL_TEMPERATURE 10"
  using dry_formulations_agree[of "dry_sounding\<lparr>qv_surf := 0\<rparr>" example_constants 10]
  by (simp add: dry_sounding_def)

text \<open>
  C4 as stated fails when only the levels are dry: \<^verbatim>\<open>integrate_column\<close> takes the \<open>qvf\<close> of
  \<open>rho_surf\<close> from \<^verbatim>\<open>qv_surf\<close>, \<^verbatim>\<open>integrate_column_wrf\<close> from \<^verbatim>\<open>qv[0]\<close>.
\<close>

theorem dry_formulations_differ:
  "outcome (integrate example_constants dry_sounding LEGACY 1)
     \<noteq> outcome (integrate example_constants dry_sounding VIRTUAL_POTENTIAL_TEMPERATURE 1)"
proof
  assume eq: "outcome (integrate example_constants dry_sounding LEGACY 1)
     = outcome (integrate example_constants dry_sounding VIRTUAL_POTENTIAL_TEMPERATURE 1)"
  have ne: "levels dry_sounding \<noteq> []"
    by (simp add: dry_sounding_def)
  obtain pr1 where pr1: "snd (outcome (integrate example_constants dry_sounding LEGACY 1)) = Some pr1"
     "pm pr1 ! 0 = fst (ref_level (qvf_for example_constants LEGACY) example_constants dry_sounding
               (rho_surf_of example_constants dry_sounding LEGACY) (Suc 0) 0)"
    using level0_always[OF ne, of example_constants LEGACY 1] by auto
  obtain pr2 where pr2: "snd (outcome (integrate example_constants dry_sounding
        VIRTUAL_POTENTIAL_TEMPERATURE 1)) = Some pr2"
     "pm pr2 ! 0 = fst (ref_level (qvf_for example_constants VIRTUAL_POTENTIAL_TEMPERATURE) example_constants
               dry_sounding
               (rho_surf_of example_constants dry_sounding VIRTUAL_POTENTIAL_TEMPERATURE) (Suc 0) 0)"
    using level0_always[OF ne, of example_constants VIRTUAL_POTENTIAL_TEMPERATURE 1] by auto
  have "pr1 = pr2" using pr1(1) pr2(1) eq by simp
  then have "fst (ref_level (qvf_for example_constants LEGACY) example_constants dry_sounding
               (rho_surf_of example_constants dry_sounding LEGACY) (Suc 0) 0)
      = fst (ref_level (qvf_for example_constants VIRTUAL_POTENTIAL_TEMPERATURE) example_constants
               dry_sounding
               (rho_surf_of example_constants dry_sounding VIRTUAL_POTENTIAL_TEMPERATURE) (Suc 0) 0)"
    using pr1(2) pr2(2) by simp
  then show False
    unfolding level0_one_iteration
    by (simp add: rho_surf_of_def eos_def qvf_vpt_def qvf_wrf_def dry_sounding_def example_constants_def)
qed

subsection \<open>C5\<close>

text \<open>
  C5. Whenever the integration succeeds, with either formulation, stage 3 leaves
  \<open>p[N-1] = pm[N-1]\<close> exactly, and for every \<open>k\<close> from \<open>N-2\<close> down to \<open>0\<close>
  \<open>p[k] = p[k+1] + 0.5 * (z[k+1] - z[k]) * (rho[k] + rho[k+1]) * g\<close>, where \<open>rho\<close> and \<open>pm\<close>
  are the arrays as stage 2 left them.
\<close>

theorem stage3_dry_pressure:
  assumes "integrate c s fm Niter = Inr s'" and "derived s' = Some pr"
  shows "p pr ! (length (levels s) - 1) = pm pr ! (length (levels s) - 1)
       \<and> (\<forall>k. k + 1 < length (levels s) \<longrightarrow>
             p pr ! k = p pr ! (k + 1)
               + 0.5 * (z (levels s ! (k + 1)) - z (levels s ! k)) * (rho pr ! k + rho pr ! (k + 1)) * g c)"
proof -
  define pr2 where "pr2 = ref_profile (qvf_for c fm) c s (rho_surf_of c s fm) (nat Niter) (length (levels s))"
  have ne: "levels s \<noteq> []" by (rule integrate_InrD(1)[OF assms(1)])
  have "s' = s\<lparr>derived := Some (stage3 c s pr2)\<rparr>"
    using integrate_InrD(3)[OF assms(1)] by (simp add: pr2_def)
  then have pr: "pr = stage3 c s pr2" using assms(2) by simp
  have len: "length (p pr2) = length (levels s)" by (simp add: pr2_def ref_profile_length)
  have rho: "rho pr = rho pr2" by (simp add: pr stage3_frame)
  have pm: "pm pr = pm pr2" by (simp add: pr stage3_frame)
  show ?thesis
    using stage3_p[OF ne len, where c = c] by (simp add: pr stage3_frame)
qed

theorem stage3_dry_pressure_witness:
  "\<exists>s' pr. integrate example_constants example_sounding LEGACY 1 = Inr s' \<and> derived s' = Some pr
     \<and> p pr ! 1 = pm pr ! 1
     \<and> p pr ! 0 = p pr ! 1 + 0.5 * (1000 - 0) * (rho pr ! 0 + rho pr ! 1) * 9.81"
proof -
  obtain s' where s': "integrate example_constants example_sounding LEGACY 1 = Inr s'"
    using example_succeeds by blast
  then obtain pr where pr: "derived s' = Some pr"
    using example_succeeds[of LEGACY] by auto
  have "p pr ! 1 = pm pr ! 1
     \<and> p pr ! 0 = p pr ! 1 + 0.5 * (1000 - 0) * (rho pr ! 0 + rho pr ! 1) * 9.81"
    using stage3_dry_pressure[OF s' pr]
    by (simp add: example_sounding_def example_constants_def)
  then show ?thesis using s' pr by blast
qed

subsection \<open>C6\<close>

text \<open>
  C6, as the code has it. Neither routine validates its input. An empty table makes both
  raise \<open>IndexError\<close> at their first read of \<^verbatim>\<open>self.qv[0]\<close>: \<^verbatim>\<open>integrate_column_wrf\<close> in its
  first statement, before anything is computed or assigned; \<^verbatim>\<open>integrate_column\<close> after it
  has computed \<open>rho_surf\<close> and assigned four empty arrays. On a non-empty table the only
  exception is the assertion of stage 2: the heights are not looked at.
\<close>

theorem empty_table_index_error:
  "(levels s = [] \<longrightarrow>
       integrate c s LEGACY Niter = Inl \<lparr>exc = IndexError, at_level = 0, obj = derived s\<rparr>
     \<and> integrate c s VIRTUAL_POTENTIAL_TEMPERATURE Niter =
         Inl \<lparr>exc = IndexError, at_level = 0, obj = Some \<lparr>rho = [], thm' = [], pm = [], p = []\<rparr>\<rparr>)
   \<and> (levels s \<noteq> [] \<longrightarrow>
       fst (outcome (integrate c s fm Niter)) = None
     \<or> fst (outcome (integrate c s fm Niter)) = Some (AssertionError ''too cold for chosen height''))"
proof (intro conjI impI)
  assume e: "levels s = []"
  show "integrate c s LEGACY Niter = Inl \<lparr>exc = IndexError, at_level = 0, obj = derived s\<rparr>"
    by (rule integrate_empty(1)[OF e])
  show "integrate c s VIRTUAL_POTENTIAL_TEMPERATURE Niter =
         Inl \<lparr>exc = IndexError, at_level = 0, obj = Some \<lparr>rho = [], thm' = [], pm = [], p = []\<rparr>\<rparr>"
    by (rule integrate_empty(2)[OF e])
next
  assume ne: "levels s \<noteq> []"
  show "fst (outcome (integrate c s fm Niter)) = None
     \<or> fst (outcome (integrate c s fm Niter)) = Some (AssertionError ''too cold for chosen height'')"
  proof (cases "integrate c s fm Niter")
    case (Inl f)
    then show ?thesis using integrate_Inl_exc[OF Inl] ne by (simp add: outcome_def)
  next
    case (Inr s')
    then show ?thesis by (simp add: outcome_def)
  qed
qed

theorem empty_table_index_error_witness:
  "levels (example_sounding\<lparr>levels := []\<rparr>) = []
   \<and> fst (outcome (integrate example_constants (example_sounding\<lparr>levels := []\<rparr>) LEGACY 10)) = Some IndexError
   \<and> fst (outcome (integrate example_constants (example_sounding\<lparr>levels := []\<rparr>)
             VIRTUAL_POTENTIAL_TEMPERATURE 10)) = Some IndexError"
proof -
  have e: "levels (example_sounding\<lparr>levels := []\<rparr>) = []" by simp
  from empty_table_index_error[of "example_sounding\<lparr>levels := []\<rparr>" example_constants 10] e
  have "integrate example_constants (example_sounding\<lparr>levels := []\<rparr>) LEGACY 10
          = Inl \<lparr>exc = IndexError, at_level = 0, obj = derived (example_sounding\<lparr>levels := []\<rparr>)\<rparr>"
       "integrate example_constants (example_sounding\<lparr>levels := []\<rparr>) VIRTUAL_POTENTIAL_TEMPERATURE 10
          = Inl \<lparr>exc = IndexError, at_level = 0, obj = Some \<lparr>rho = [], thm' = [], pm = [], p = []\<rparr>\<rparr>"
    by blast+
  then show ?thesis unfolding outcome_def using e by simp
qed

text \<open>
  C6 as stated fails for heights that are not strictly increasing: the routine integrates
  a table whose second level is below the first and returns.
\<close>

theorem unsorted_heights_accepted:
  "\<not> z (levels unsorted_sounding ! 0) < z (levels unsorted_sounding ! 1)
   \<and> fst (outcome (integrate example_constants unsorted_sounding LEGACY 1)) = None"
proof -
  obtain s' where "integrate example_constants unsorted_sounding LEGACY 1 = Inr s'"
    using unsorted_succeeds by blast
  then have "fst (outcome (integrate example_constants unsorted_sounding LEGACY 1)) = None"
    unfolding outcome_def by simp
  moreover have "\<not> z (levels unsorted_sounding ! 0) < z (levels unsorted_sounding ! 1)"
    by (simp add: unsorted_sounding_def)
  ultimately show ?thesis by simp
qed

subsection \<open>C7\<close>

text \<open>
  C7, as the code has it. On a successful run with at least one iteration, with positive
  \<open>g\<close>, \<open>R_d\<close>, \<open>p0\<close> and \<open>cvpm \<le> 0\<close>, strictly increasing heights, mixing ratios that are
  not negative and positive densities at all levels: \<open>pm[k]\<close> and \<open>p[k]\<close> are strictly
  decreasing in \<open>k\<close>, and \<open>rho[k+1] \<le> rho[k]\<close> wherever the moist potential temperature
  \<open>thm = th * qvf\<close> does not decrease from \<open>k\<close> to \<open>k+1\<close>.
\<close>

theorem pressure_monotone:
  assumes r: "integrate c s fm Niter = Inr s'" "derived s' = Some pr"
    and n: "0 < Niter"
    and cs: "0 < g c" "0 < R_d c" "0 < p0 c" "cvpm c \<le> 0"
    and zs: "\<forall>k. k + 1 < length (levels s) \<longrightarrow> z (levels s ! k) < z (levels s ! (k + 1))"
    and qs: "\<forall>k<length (levels s). 0 \<le> qv (levels s ! k)"
    and rp: "\<forall>k<length (levels s). 0 < rho pr ! k"
  shows "\<forall>k. k + 1 < length (levels s) \<longrightarrow>
           pm pr ! (k + 1) < pm pr ! k \<and> p pr ! (k + 1) < p pr ! k
         \<and> (thm' pr ! k \<le> thm' pr ! (k + 1) \<longrightarrow> rho pr ! (k + 1) \<le> rho pr ! k)"
proof (intro allI impI)
  fix k assume k: "k + 1 < length (levels s)"
  define qf where "qf = qvf_for c fm"
  define rs where "rs = rho_surf_of c s fm"
  define N where "N = length (levels s)"
  obtain m where m: "nat Niter = Suc m" using n by (cases "nat Niter") simp_all
  define L where "L = ref_level qf c s rs (Suc m)"
  have ne: "levels s \<noteq> []" by (rule integrate_InrD(1)[OF r(1)])
  have pb: "positive_below qf c s rs (Suc m) N"
    using integrate_InrD(2)[OF r(1)] by (simp add: qf_def rs_def N_def m)
  have "s' = s\<lparr>derived := Some (stage3 c s (ref_profile qf c s rs (Suc m) N))\<rparr>"
    using integrate_InrD(3)[OF r(1)] by (simp add: qf_def rs_def N_def m)
  then have pr: "pr = stage3 c s (ref_profile qf c s rs (Suc m) N)" using r(2) by simp
  have kN: "k < N" "Suc k < N" using k by (simp_all add: N_def)
  have arr: "pm pr ! k = fst (L k)" "rho pr ! k = snd (L k)"
    "pm pr ! Suc k = fst (L (Suc k))" "rho pr ! Suc k = snd (L (Suc k))"
    "thm' pr ! k = th (levels s ! k) * qf (qv (levels s ! k))"
    "thm' pr ! Suc k = th (levels s ! Suc k) * qf (qv (levels s ! Suc k))"
    using kN by (simp_all add: pr stage3_frame ref_profile_nth N_def L_def)
  have rk: "0 < snd (L k)" "0 < snd (L (Suc k))"
    using rp[rule_format, of k] rp[rule_format, of "Suc k"] kN arr(2,4) by (simp_all add: N_def)
  have Ppos: "0 < fst (L (Suc k))"
  proof -
    have "0 < fst (ref_iter qf c s rs (Suc m) (Suc k) (Suc m))"
      using pb kN(2) by (simp add: positive_below_def)
    then show ?thesis unfolding L_def ref_level_Suc_iter .
  qed
  have eosk: "snd (L (Suc k)) = eos c (th (levels s ! Suc k)) (qf (qv (levels s ! Suc k))) (fst (L (Suc k)))"
    "snd (L k) = eos c (th (levels s ! k)) (qf (qv (levels s ! k))) (fst (L k))"
    unfolding L_def by (rule ref_level_eos, simp)+
  have T': "0 < th (levels s ! Suc k) * qf (qv (levels s ! Suc k))"
    using rk(2) eosk(1) eos_pos_iff[OF cs(2,3) Ppos] by simp
  have rm: "0 \<le> snd (ref_iter qf c s rs (Suc m) (Suc k) m)"
  proof (cases m)
    case 0
    then show ?thesis using rk(1) by (simp add: ref_iter_zero L_def)
  next
    case (Suc m')
    show ?thesis
      unfolding Suc ref_iter_eos
      by (rule eos_nonneg_product) (use cs T' in simp_all)
  qed
  have dz: "0 < dz_at s (Suc k)" using zs k by (simp add: dz_at_def)
  have q1: "0 < qvf1_at s (Suc k)"
    using qs[rule_format, of k] qs[rule_format, of "Suc k"] kN by (simp add: qvf1_at_def N_def)
  have step: "fst (L (Suc k)) = fst (L k)
      - 0.5 * dz_at s (Suc k) * (snd (ref_iter qf c s rs (Suc m) (Suc k) m) + snd (L k)) * g c * qvf1_at s (Suc k)"
    unfolding L_def by (rule ref_level_last_step) simp
  have "0 < 0.5 * dz_at s (Suc k) * (snd (ref_iter qf c s rs (Suc m) (Suc k) m) + snd (L k)) * g c * qvf1_at s (Suc k)"
    using dz rm rk(1) cs(1) q1 by (intro mult_pos_pos) simp_all
  then have pmlt: "fst (L (Suc k)) < fst (L k)" using step by simp
  have len: "length (p (ref_profile qf c s rs (Suc m) N)) = length (levels s)"
    by (simp add: ref_profile_length)
  have "p pr ! k = p pr ! (k + 1)
      + 0.5 * (z (levels s ! (k + 1)) - z (levels s ! k)) * (rho pr ! k + rho pr ! (k + 1)) * g c"
    using stage3_p(2)[OF ne len k, where c = c] by (simp add: pr stage3_frame)
  moreover have "0 < 0.5 * (z (levels s ! (k + 1)) - z (levels s ! k)) * (rho pr ! k + rho pr ! (k + 1)) * g c"
    using dz rk arr cs(1) by (intro mult_pos_pos) (simp_all add: dz_at_def)
  ultimately have plt: "p pr ! (k + 1) < p pr ! k" by simp
  have rho_le: "snd (L (Suc k)) \<le> snd (L k)"
    if "th (levels s ! k) * qf (qv (levels s ! k)) \<le> th (levels s ! Suc k) * qf (qv (levels s ! Suc k))"
  proof -
    have Pk: "0 < fst (L k)" using Ppos pmlt by simp
    have T: "0 < th (levels s ! k) * qf (qv (levels s ! k))"
      using rk(1) eosk(2) eos_pos_iff[OF cs(2,3) Pk] by simp
    show ?thesis
      unfolding eosk
      by (rule eos_antimono[OF cs(2,3,4) T that Ppos]) (use pmlt in simp)
  qed
  show "pm pr ! (k + 1) < pm pr ! k \<and> p pr ! (k + 1) < p pr ! k
         \<and> (thm' pr ! k \<le> thm' pr ! (k + 1) \<longrightarrow> rho pr ! (k + 1) \<le> rho pr ! k)"
    using pmlt plt rho_le arr by simp
qed

theorem pressure_monotone_witness:
  "\<exists>s' pr. integrate example_constants example_sounding LEGACY 1 = Inr s' \<and> derived s' = Some pr
     \<and> 0 < rho pr ! 0 \<and> 0 < rho pr ! 1 \<and> thm' pr ! 0 \<le> thm' pr ! 1
     \<and> pm pr ! 1 < pm pr ! 0 \<and> p pr ! 1 < p pr ! 0 \<and> rho pr ! 1 \<le> rho pr ! 0"
proof -
  define pr where "pr = stage3 example_constants example_sounding
       (ref_profile (qvf_for example_constants LEGACY) example_constants example_sounding
          (rho_surf_of example_constants example_sounding LEGACY) (Suc 0) 2)"
  define s' where "s' = example_sounding\<lparr>derived := Some pr\<rparr>"
  have r: "integrate example_constants example_sounding LEGACY 1 = Inr s'" "derived s' = Some pr"
    unfolding s'_def pr_def by (rule example_succeeds) simp
  have len: "length (levels example_sounding) = 2" by (simp add: example_sounding_def)
  have rho0: "rho pr ! 0 = 100000 / (287 * 300 * 1.01608)"
    unfolding pr_def by (simp add: stage3_frame ref_profile_nth len example_level0_value del: ref_level.simps)
  have rho1: "0 < rho pr ! 1"
    unfolding pr_def using example_level1_value(2)
    by (simp add: stage3_frame ref_profile_nth len del: ref_level.simps)
  have th: "thm' pr ! 0 \<le> thm' pr ! 1"
    unfolding pr_def
    by (simp add: stage3_frame ref_profile_nth len)
       (simp add: example_sounding_def qvf_for_def qvf_wrf_def example_constants_def)
  have rp: "\<forall>k<length (levels example_sounding). 0 < rho pr ! k"
    using rho0 rho1 by (simp add: len less_Suc_eq numeral_2_eq_2)
  have cs: "0 < g example_constants" "0 < R_d example_constants" "0 < p0 example_constants"
    "cvpm example_constants \<le> 0"
    by (simp_all add: example_constants_def)
  have zs: "\<forall>k. k + 1 < length (levels example_sounding) \<longrightarrow>
      z (levels example_sounding ! k) < z (levels example_sounding ! (k + 1))"
    by (simp add: example_sounding_def)
  have qs: "\<forall>k<length (levels example_sounding). 0 \<le> qv (levels example_sounding ! k)"
    by (simp add: example_sounding_def less_Suc_eq numeral_2_eq_2)
  have "pm pr ! 1 < pm pr ! 0 \<and> p pr ! 1 < p pr ! 0 \<and> rho pr ! 1 \<le> rho pr ! 0"
    using pressure_monotone[OF r _ cs zs qs rp, rule_format, of 0] th by (simp add: len)
  then show ?thesis using r rho0 rho1 th by auto
qed

text \<open>
  C7 as stated, with the dry potential temperature non-decreasing, fails for the density:
  where the moisture drops with height \<open>qvf\<close> drops too, and \<open>rho\<close> can go up. On the sounding
  below the run succeeds, both densities are positive, and \<open>rho[1] > rho[0]\<close>.
\<close>

theorem density_can_increase:
  "fst (outcome (integrate example_constants drying_sounding LEGACY 1)) = None
   \<and> z (levels drying_sounding ! 0) < z (levels drying_sounding ! 1)
   \<and> th (levels drying_sounding ! 0) \<le> th (levels drying_sounding ! 1)
   \<and> 0 < rho (the (snd (outcome (integrate example_constants drying_sounding LEGACY 1)))) ! 0
   \<and> rho (the (snd (outcome (integrate example_constants drying_sounding LEGACY 1)))) ! 0
       < rho (the (snd (outcome (integrate example_constants drying_sounding LEGACY 1)))) ! 1"
proof -
  define pr where "pr = stage3 example_constants drying_sounding
       (ref_profile (qvf_for example_constants LEGACY) example_constants drying_sounding
          (rho_surf_of example_constants drying_sounding LEGACY) (Suc 0) 2)"
  have o: "outcome (integrate example_constants drying_sounding LEGACY 1) = (None, Some pr)"
    unfolding drying_succeeds pr_def by (simp add: outcome_def)
  have len: "length (levels drying_sounding) = 2" by (simp add: drying_sounding_def)
  have rho0: "rho pr ! 0 = 100000 / (287 * 300 * 1.01608)"
    unfolding pr_def by (simp add: stage3_frame ref_profile_nth len drying_level0 del: ref_level.simps)
  have rho1: "100000 / (287 * 300 * 1.01608) < rho pr ! 1"
    unfolding pr_def using drying_level1
    by (simp add: stage3_frame ref_profile_nth len del: ref_level.simps)
  have zt: "z (levels drying_sounding ! 0) < z (levels drying_sounding ! 1)"
    "th (levels drying_sounding ! 0) \<le> th (levels drying_sounding ! 1)"
    by (simp_all add: drying_sounding_def)
  show ?thesis unfolding o using rho0 rho1 zt by simp
qed

subsection \<open>C8\<close>

text \<open>
  C8. The result of an integration does not depend on the arrays a previous call left on
  the object: on a table with at least one level, two objects that differ only in those
  arrays give the same result, with both routines, and calling the routine again on the
  object it returned gives the same object. (On an empty table \<^verbatim>\<open>integrate_column_wrf\<close>
  raises before it assigns the arrays, which then are the old ones.)
\<close>

theorem integrate_fresh_profile:
  assumes "levels s \<noteq> []"
  shows "integrate c (s\<lparr>derived := a\<rparr>) fm Niter = integrate c (s\<lparr>derived := b\<rparr>) fm Niter
       \<and> (\<forall>s'. integrate c s fm Niter = Inr s' \<longrightarrow> integrate c s' fm Niter = Inr s')"
proof (intro conjI allI impI)
  show "integrate c (s\<lparr>derived := a\<rparr>) fm Niter = integrate c (s\<lparr>derived := b\<rparr>) fm Niter"
    by (rule integrate_derived_irrelevant[OF assms])
next
  fix s' assume r: "integrate c s fm Niter = Inr s'"
  then obtain X where s': "s' = s\<lparr>derived := Some X\<rparr>"
    using integrate_InrD(3)[OF r] by blast
  have "integrate c s' fm Niter = integrate c (s\<lparr>derived := derived s\<rparr>) fm Niter"
    unfolding s' by (rule integrate_derived_irrelevant[OF assms])
  then show "integrate c s' fm Niter = Inr s'" using r by simp
qed

theorem integrate_fresh_profile_witness:
  "levels example_sounding \<noteq> []
   \<and> integrate example_constants (example_sounding\<lparr>derived := None\<rparr>) LEGACY 10 =
       integrate example_constants
         (example_sounding\<lparr>derived := Some \<lparr>rho = [1, 2], thm' = [3, 4], pm = [5, 6], p = [7, 8]\<rparr>\<rparr>) LEGACY 10"
proof -
  have ne: "levels example_sounding \<noteq> []" by (simp add: example_sounding_def)
  show ?thesis
    using ne integrate_fresh_profile[OF ne, where c = example_constants and a = None
        and b = "Some \<lparr>rho = [1, 2], thm' = [3, 4], pm = [5, 6], p = [7, 8]\<rparr>"
        and fm = LEGACY and Niter = 10]
    by simp
qed

subsection \<open>C9\<close>

text \<open>
  C9. Stage 1 has no check on \<open>pm[0]\<close>. On a table with at least one level: an assertion
  failure is never raised at level 0 (it is raised in the loop over \<open>k \<ge> 1\<close> only); whatever
  the sign of the pressure the stage-1 relaxation ends with, that value is left in \<open>pm[0]\<close>,
  and after at least one iteration \<open>rho[0]\<close> is the equation of state at that pressure; on a
  table of one level the routine always returns.
\<close>

theorem no_check_at_level0:
  assumes "levels s \<noteq> []"
  shows "(\<forall>f. integrate c s fm Niter = Inl f \<longrightarrow>
            exc f = AssertionError ''too cold for chosen height'' \<and> 1 \<le> at_level f)
       \<and> (\<exists>pr. snd (outcome (integrate c s fm Niter)) = Some pr
             \<and> (pm pr ! 0, rho pr ! 0) =
                 (surface_step (qvf_for c fm) c s (rho_surf_of c s fm) ^^ nat Niter) (0, rho_surf_of c s fm)
             \<and> (0 < Niter \<longrightarrow>
                   rho pr ! 0 = eos c (th (levels s ! 0)) (qvf_for c fm (qv (levels s ! 0))) (pm pr ! 0)))
       \<and> (length (levels s) = 1 \<longrightarrow> (\<exists>s'. integrate c s fm Niter = Inr s'))"
proof (intro conjI allI impI)
  fix f assume f: "integrate c s fm Niter = Inl f"
  from integrate_InlD[OF f assms]
  show "exc f = AssertionError ''too cold for chosen height''" "1 \<le> at_level f"
    by (auto simp add: too_cold_def)
next
  define X where "X = (surface_step (qvf_for c fm) c s (rho_surf_of c s fm) ^^ nat Niter) (0, rho_surf_of c s fm)"
  from level0_always[OF assms, of c fm Niter] obtain pr where
    pr: "snd (outcome (integrate c s fm Niter)) = Some pr" "pm pr ! 0 = fst X" "rho pr ! 0 = snd X"
    by (auto simp add: X_def)
  have "0 < Niter \<longrightarrow> snd X = eos c (th (levels s ! 0)) (qvf_for c fm (qv (levels s ! 0))) (fst X)"
  proof
    assume "0 < Niter"
    then obtain m where m: "nat Niter = Suc m" by (cases "nat Niter") simp_all
    show "snd X = eos c (th (levels s ! 0)) (qvf_for c fm (qv (levels s ! 0))) (fst X)"
      unfolding X_def m by (simp add: surface_step_def relax_step_eos)
  qed
  then show "\<exists>pr. snd (outcome (integrate c s fm Niter)) = Some pr
             \<and> (pm pr ! 0, rho pr ! 0) =
                 (surface_step (qvf_for c fm) c s (rho_surf_of c s fm) ^^ nat Niter) (0, rho_surf_of c s fm)
             \<and> (0 < Niter \<longrightarrow>
                   rho pr ! 0 = eos c (th (levels s ! 0)) (qvf_for c fm (qv (levels s ! 0))) (pm pr ! 0))"
    using pr by (intro exI[of _ pr]) (simp add: X_def)
next
  assume "length (levels s) = 1"
  then show "\<exists>s'. integrate c s fm Niter = Inr s'"
    using integrate_success[OF assms, of c fm Niter] by (simp add: positive_below_1)
qed

theorem no_check_at_level0_witness:
  "levels cold_sounding \<noteq> []
   \<and> (\<exists>f pr. integrate example_constants cold_sounding LEGACY 1 = Inl f
          \<and> exc f = AssertionError ''too cold for chosen height''
          \<and> 1 \<le> at_level f \<and> obj f = Some pr \<and> pm pr ! 0 < 0)"
proof -
  have ne: "levels cold_sounding \<noteq> []" by (simp add: cold_sounding_def)
  note T = no_check_at_level0[OF ne, of example_constants LEGACY 1]
  obtain f where f: "integrate example_constants cold_sounding LEGACY 1 = Inl f"
    using cold_fails by blast
  from T f have e: "exc f = AssertionError ''too cold for chosen height''" "1 \<le> at_level f"
    by blast+
  from T obtain pr where pr:
    "snd (outcome (integrate example_constants cold_sounding LEGACY 1)) = Some pr"
    "(pm pr ! 0, rho pr ! 0) =
       (surface_step (qvf_for example_constants LEGACY) example_constants cold_sounding
          (rho_surf_of example_constants cold_sounding LEGACY) ^^ nat 1)
         (0, rho_surf_of example_constants cold_sounding LEGACY)"
    by blast
  have o: "obj f = Some pr" using pr(1) f by (simp add: outcome_def)
  have "pm pr ! 0 = fst (ref_level (qvf_for example_constants LEGACY) example_constants cold_sounding
          (rho_surf_of example_constants cold_sounding LEGACY) (Suc 0) 0)"
    using pr(2) by (simp add: prod_eq_iff)
  then have "pm pr ! 0 < 0" unfolding cold_level0 by simp
  then show ?thesis using ne f e o by blast
qed

subsection \<open>C10\<close>

text \<open>
  C10. When the assertion fails at level \<open>k\<close>, the arrays of the object are left partly
  written: below \<open>k\<close> the entries of \<open>pm\<close>, \<open>rho\<close> and \<open>thm\<close> are the finished values of the
  levels (\<open>ref_level\<close>, all iterations done); \<open>pm[k]\<close> is the offending value, not above zero;
  \<open>rho[k]\<close> is the value of the last completed iteration \<open>i\<close>, which is \<open>rho[k-1]\<close> when the
  first iteration fails; \<open>thm\<close> is still 0 from \<open>k\<close> on, \<open>pm\<close> and \<open>rho\<close> are still 0 above
  \<open>k\<close>, and \<open>p\<close> is all zeros.
\<close>

theorem failure_leaves_partial_arrays:
  assumes "integrate c s fm Niter = Inl f" and "exc f = AssertionError msg"
  shows "\<exists>pr. obj f = Some pr \<and> 1 \<le> at_level f \<and> at_level f < length (levels s)
       \<and> pm pr ! at_level f \<le> 0
       \<and> (\<forall>j<at_level f.
             pm pr ! j = fst (ref_level (qvf_for c fm) c s (rho_surf_of c s fm) (nat Niter) j)
           \<and> rho pr ! j = snd (ref_level (qvf_for c fm) c s (rho_surf_of c s fm) (nat Niter) j)
           \<and> thm' pr ! j = th (levels s ! j) * qvf_for c fm (qv (levels s ! j)))
       \<and> (\<exists>i<nat Niter.
             pm pr ! at_level f = fst (ref_iter (qvf_for c fm) c s (rho_surf_of c s fm) (nat Niter) (at_level f) (Suc i))
           \<and> rho pr ! at_level f = snd (ref_iter (qvf_for c fm) c s (rho_surf_of c s fm) (nat Niter) (at_level f) i)
           \<and> (i = 0 \<longrightarrow> rho pr ! at_level f = rho pr ! (at_level f - 1)))
       \<and> (\<forall>j. at_level f \<le> j \<and> j < length (levels s) \<longrightarrow> thm' pr ! j = 0)
       \<and> (\<forall>j. at_level f < j \<and> j < length (levels s) \<longrightarrow> pm pr ! j = 0 \<and> rho pr ! j = 0)
       \<and> p pr = replicate (length (levels s)) 0"
proof -
  have ne: "levels s \<noteq> []"
    using integrate_Inl_exc[OF assms(1)] assms(2) by auto
  define qf where "qf = qvf_for c fm"
  define rs where "rs = rho_surf_of c s fm"
  define n where "n = nat Niter"
  from integrate_InlD[OF assms(1) ne] obtain k i where ki:
    "1 \<le> k" "k < length (levels s)" "i < n"
    "\<not> 0 < fst (ref_iter qf c s rs n k (Suc i))"
    "f = too_cold k (fail_profile qf c s rs n k i)"
    unfolding qf_def rs_def n_def by blast
  define pr where "pr = fail_profile qf c s rs n k i"
  have f: "obj f = Some pr" "at_level f = k" by (simp_all add: ki(5) too_cold_def pr_def)
  have a: "pm pr ! k \<le> 0"
    using ki(4) fail_profile_at(1)[OF ki(1,2)] by (simp add: pr_def)
  have b: "\<forall>j<k. pm pr ! j = fst (ref_level qf c s rs n j) \<and> rho pr ! j = snd (ref_level qf c s rs n j)
            \<and> thm' pr ! j = th (levels s ! j) * qf (qv (levels s ! j))"
    using fail_profile_below[OF _ ki(2)] by (simp add: pr_def)
  have d: "\<exists>i<n. pm pr ! k = fst (ref_iter qf c s rs n k (Suc i))
           \<and> rho pr ! k = snd (ref_iter qf c s rs n k i) \<and> (i = 0 \<longrightarrow> rho pr ! k = rho pr ! (k - 1))"
    using ki(3) fail_profile_at[OF ki(1,2), of qf c rs n] unfolding pr_def
    by (intro exI[of _ i]) auto
  have e: "\<forall>j. k \<le> j \<and> j < length (levels s) \<longrightarrow> thm' pr ! j = 0"
    using fail_profile_above(1) by (simp add: pr_def)
  have e': "\<forall>j. k < j \<and> j < length (levels s) \<longrightarrow> pm pr ! j = 0 \<and> rho pr ! j = 0"
    using fail_profile_above(2,3) by (simp add: pr_def)
  have g: "p pr = replicate (length (levels s)) 0"
    using fail_profile_at(4)[OF ki(1,2)] by (simp add: pr_def)
  show ?thesis
    using f ki(1,2) a b d e e' g unfolding qf_def rs_def n_def by simp
qed

theorem failure_leaves_partial_arrays_witness:
  "\<exists>f pr. integrate example_constants thin_sounding LEGACY 1 = Inl f
      \<and> exc f = AssertionError ''too cold for chosen height''
      \<and> obj f = Some pr \<and> at_level f = 2
      \<and> pm pr ! 2 \<le> 0 \<and> rho pr ! 2 = rho pr ! 1
      \<and> thm' pr ! 0 = 300 \<and> thm' pr ! 1 = 300 \<and> thm' pr ! 2 = 0
      \<and> p pr = [0, 0, 0]"
proof -
  define f where "f = too_cold 2 (fail_profile (qvf_for example_constants LEGACY) example_constants
       thin_sounding (rho_surf_of example_constants thin_sounding LEGACY) (Suc 0) 2 0)"
  have f: "integrate example_constants thin_sounding LEGACY 1 = Inl f"
    unfolding f_def by (rule thin_fails)
  have e: "exc f = AssertionError ''too cold for chosen height''" "at_level f = 2"
    by (simp_all add: f_def too_cold_def)
  have len: "length (levels thin_sounding) = 3" by (simp add: thin_sounding_def)
  from failure_leaves_partial_arrays[OF f e(1)] obtain pr where pr:
    "obj f = Some pr" "pm pr ! at_level f \<le> 0"
    "\<forall>j<at_level f. thm' pr ! j = th (levels thin_sounding ! j)
        * qvf_for example_constants LEGACY (qv (levels thin_sounding ! j))"
    "\<exists>i<nat 1. i = 0 \<longrightarrow> rho pr ! at_level f = rho pr ! (at_level f - 1)"
    "\<forall>j. at_level f \<le> j \<and> j < length (levels thin_sounding) \<longrightarrow> thm' pr ! j = 0"
    "p pr = replicate (length (levels thin_sounding)) 0"
    by blast
  have "thm' pr ! 0 = 300" "thm' pr ! 1 = 300"
    using pr(3) e(2) by (simp_all add: thin_sounding_def qvf_for_zero)
  moreover have "thm' pr ! 2 = 0" using pr(5) e(2) len by simp
  moreover have "rho pr ! 2 = rho pr ! 1" using pr(4) e(2) by simp
  moreover have "p pr = [0, 0, 0]" using pr(6) len by (simp add: numeral_3_eq_3)
  ultimately show ?thesis using f e pr(1,2) by auto
qed

end
